theory Spec2Isabelle
  imports Complex_Main "HOL-Library.Word"
begin

section \<open>Blowing-snow sublimation (CalcBlowingSnow.c)\<close>

text \<open>
  A shallow embedding of \<^verbatim>\<open>CalcBlowingSnow.c\<close>.

  \<^item> A C \<^verbatim>\<open>double\<close> or \<^verbatim>\<open>float\<close> is a \<^typ>\<open>real\<close>: rounding, infinities and NaN are not
    part of the model. \<^verbatim>\<open>exp\<close>, \<^verbatim>\<open>log\<close>, \<^verbatim>\<open>sqrt\<close>, \<^verbatim>\<open>cos\<close>, \<^verbatim>\<open>fabs\<close> are the functions of
    the same name on the reals and \<^verbatim>\<open>pow\<close> is \<open>powr\<close>. Where the C program would produce
    an infinity or a NaN (division by zero, logarithm of a non-positive number, a
    negative base of \<^verbatim>\<open>pow\<close>, an overflow of \<^verbatim>\<open>exp\<close>) the model computes with the value HOL
    gives the total function (\<open>x / 0 = 0\<close>, \<open>ln 0 = 0\<close>, \<open>ln (- x) = ln x\<close>). A comparison
    is the comparison of the exact values: the model follows the program on the runs
    in which no test is decided by rounding or by a value that is not finite. The
    concrete runs below are chosen of this kind.
  \<^item> \<^verbatim>\<open>exit\<close> and \<^verbatim>\<open>nrerror\<close> end the run: a function that can reach them returns
    \<open>error + result\<close>.
  \<^item> Loops are recursive functions over the loop counter; the \<^verbatim>\<open>static\<close> accumulator of
    \<^verbatim>\<open>trapzd\<close> is passed in and returned; the arrays \<open>s\<close>, \<open>h\<close>, \<open>ZO\<close> are functions from the index,
    the two blocks \<^verbatim>\<open>polint\<close> allocates are lists with their bounds.
  \<^item> What \<^verbatim>\<open>vicNl.h\<close> declares (physical constants and \<^verbatim>\<open>svp\<close>) is not part of the
    file: it is the parameter \<open>c\<close> of every function that uses it.
\<close>

subsection \<open>Constants\<close>

record vic_consts =
  svp :: "real \<Rightarrow> real"
  KELVIN :: real
  MW :: real
  R :: real
  von_K :: real
  G_STD :: real
  PI :: real
  ice_density :: real

definition Ka :: real where "Ka = 0.0245187"
definition CSALT :: real where "CSALT = 0.68"
definition UTHRESH :: real where "UTHRESH = 0.25"
definition KIN_VIS :: real where "KIN_VIS = 1.3 / 100000"
definition MAX_ITER :: nat where "MAX_ITER = 100"
definition K :: nat where "K = 5"
definition MACHEPS :: real where "MACHEPS = 1 / 1000000"
definition SETTLING :: real where "SETTLING = 0.3"
definition NUMINCS :: nat where "NUMINCS = 10"
definition SIMPLE :: int where "SIMPLE = 0"
definition SPATIAL_WIND :: int where "SPATIAL_WIND = 1"
definition VAR_THRESHOLD :: int where "VAR_THRESHOLD = 1"
definition FETCH :: int where "FETCH = 1"
definition CALC_PROB :: int where "CALC_PROB = 1"

datatype error = RootNotBracketed | TooManySteps | PolintError | HeapOverflow

subsection \<open>The root solver\<close>

definition get_shear :: "vic_consts \<Rightarrow> real \<Rightarrow> real \<Rightarrow> real \<Rightarrow> real \<times> real" where
  "get_shear c x Ur Zr =
     (exp (von_K c * Ur / x) - (2 * G_STD c * Zr) / (0.12 * x * x),
      - 1 * exp (von_K c * Ur / x) / (x * x) + 2 * (2 * G_STD c * Zr) / (0.12 * x * x * x))"

text \<open>The variables of the loop of \<^verbatim>\<open>rtnewt\<close>: \<open>(xl, xh, rts, dx, dxold, f, df)\<close>.\<close>

type_synonym newt = "real \<times> real \<times> real \<times> real \<times> real \<times> real \<times> real"

text \<open>The end of the loop body, after the new \<open>rts\<close> and \<open>dx\<close> are known and the two
  equality tests have not returned.\<close>

definition rtnewt_tail ::
  "vic_consts \<Rightarrow> real \<Rightarrow> real \<Rightarrow> real \<Rightarrow> real \<Rightarrow> real \<Rightarrow> real \<Rightarrow> real \<Rightarrow> real \<Rightarrow> real + newt" where
  "rtnewt_tail c acc Ur Zr xl xh rts dx dxold =
     (if \<bar>dx\<bar> < acc then Inl rts
      else (let (f, df) = get_shear c rts Ur Zr
            in if f < 0 then Inr (rts, xh, rts, dx, dxold, f, df)
               else Inr (xl, rts, rts, dx, dxold, f, df)))"

text \<open>One pass through the loop body: \<open>Inl r\<close> is \<^verbatim>\<open>return r\<close>, \<open>Inr st\<close> the variables at the
  end of the pass. The tests \<^verbatim>\<open>xl == rts\<close> and \<^verbatim>\<open>temp == rts\<close> are equalities of reals here:
  they hold when the step is exactly zero, where the program also stops once the step
  is below the spacing of the \<^verbatim>\<open>double\<close>s around \<open>rts\<close>; and \<open>f\<close>, \<open>df\<close> are always finite
  here, where the program can compute an infinity or a NaN from an overflow of \<^verbatim>\<open>exp\<close>.\<close>

definition rtnewt_body :: "vic_consts \<Rightarrow> real \<Rightarrow> real \<Rightarrow> real \<Rightarrow> real \<Rightarrow> newt \<Rightarrow> real + newt" where
  "rtnewt_body c x1 acc Ur Zr st =
     (case st of (xl, xh, rts, dx, dxold, f, df) \<Rightarrow>
        if ((rts - xh) * df - f) * ((rts - x1) * df - f) > 0 \<or> \<bar>2 * f\<bar> > \<bar>dxold * df\<bar>
        then (let dxold' = dx; dx' = 0.5 * (xh - xl); rts' = xl + dx'
              in if xl = rts' then Inl rts'
                 else rtnewt_tail c acc Ur Zr xl xh rts' dx' dxold')
        else (let dxold' = dx; dx' = f / df; temp = rts; rts' = rts - dx'
              in if temp = rts' then Inl rts'
                 else rtnewt_tail c acc Ur Zr xl xh rts' dx' dxold'))"

function rtnewt_loop :: "vic_consts \<Rightarrow> real \<Rightarrow> real \<Rightarrow> real \<Rightarrow> real \<Rightarrow> nat \<Rightarrow> newt \<Rightarrow> real" where
  "rtnewt_loop c x1 acc Ur Zr j st =
     (if j \<le> MAX_ITER
      then (case rtnewt_body c x1 acc Ur Zr st of
              Inl r \<Rightarrow> r
            | Inr st' \<Rightarrow> rtnewt_loop c x1 acc Ur Zr (j + 1) st')
      else 0.025)"
  by pat_completeness auto
termination
  by (relation "measure (\<lambda>(c, x1, acc, Ur, Zr, j, st). MAX_ITER + 1 - j)") auto

declare rtnewt_loop.simps [simp del]

text \<open>The variables when the loop is entered.\<close>

definition rtnewt_init :: "vic_consts \<Rightarrow> real \<Rightarrow> real \<Rightarrow> real \<Rightarrow> real \<Rightarrow> newt" where
  "rtnewt_init c x1 x2 Ur Zr =
     (let fl = fst (get_shear c x1 Ur Zr);
          (xl, xh) = (if fl < 0 then (x1, x2) else (x2, x1));
          rts = 0.5 * (x1 + x2);
          dxold = \<bar>x2 - x1\<bar>;
          dx = dxold;
          (f, df) = get_shear c rts Ur Zr
      in (xl, xh, rts, dx, dxold, f, df))"

definition rtnewt :: "vic_consts \<Rightarrow> real \<Rightarrow> real \<Rightarrow> real \<Rightarrow> real \<Rightarrow> real \<Rightarrow> error + real" where
  "rtnewt c x1 x2 acc Ur Zr =
     (let fl = fst (get_shear c x1 Ur Zr);
          fh = fst (get_shear c x2 Ur Zr)
      in if (fl > 0 \<and> fh > 0) \<or> (fl < 0 \<and> fh < 0) then Inl RootNotBracketed
         else if fl = 0 then Inr x1
         else if fh = 0 then Inr x2
         else Inr (rtnewt_loop c x1 acc Ur Zr 1 (rtnewt_init c x1 x2 Ur Zr)))"

text \<open>The variables after \<open>k\<close> passes through the loop body none of which returned;
  \<open>None\<close> when one of them returned.\<close>

fun rtnewt_passes :: "vic_consts \<Rightarrow> real \<Rightarrow> real \<Rightarrow> real \<Rightarrow> real \<Rightarrow> nat \<Rightarrow> newt \<Rightarrow> newt option" where
  "rtnewt_passes c x1 acc Ur Zr 0 st = Some st"
| "rtnewt_passes c x1 acc Ur Zr (Suc k) st =
     (case rtnewt_body c x1 acc Ur Zr st of
        Inl r \<Rightarrow> None
      | Inr st' \<Rightarrow> rtnewt_passes c x1 acc Ur Zr k st')"

subsection \<open>Occurrence probability and threshold\<close>

definition get_prob :: "vic_consts \<Rightarrow> real \<Rightarrow> real \<Rightarrow> real \<Rightarrow> real \<Rightarrow> real" where
  "get_prob c Tair Age SurfaceLiquidWater U10 =
     (if CALC_PROB \<noteq> 0
      then (if SurfaceLiquidWater < 0.001
            then (let mean_u_occurence =
                        11.2 + 0.365 * Tair + 0.00706 * Tair * Tair + 0.9 * ln Age;
                      sigma_occurence = 4.3 + 0.145 * Tair + 0.00196 * Tair * Tair
                  in if U10 > 3
                     then 1 / (1 + exp (sqrt (PI c) * (mean_u_occurence - U10) / sigma_occurence))
                     else 0)
            else (let mean_u_occurence = 21;
                      sigma_occurence = 7
                  in if U10 > 7
                     then 1 / (1 + exp (sqrt (PI c) * (mean_u_occurence - U10) / sigma_occurence))
                     else 0))
      else 1)"

definition get_thresh ::
  "vic_consts \<Rightarrow> real \<Rightarrow> real \<Rightarrow> real \<Rightarrow> real \<Rightarrow> real \<Rightarrow> int \<Rightarrow> real \<Rightarrow> real" where
  "get_thresh c Tair SurfaceLiquidWater U10 Zo_salt prob_occurence flag ushear =
     (let ut10 = (if SurfaceLiquidWater < 0.001
                  then 9.43 + 0.18 * Tair + 0.0033 * Tair * Tair
                  else 9.9)
      in if flag \<noteq> 0
         then (let utshear = von_K c * ut10 / ln (10 / Zo_salt)
               in if ushear < utshear \<and> prob_occurence > 0.001
                  then von_K c * (U10 - 0.5) / ln (10 / Zo_salt)
                  else utshear)
         else UTHRESH)"

text \<open>\<^verbatim>\<open>shear_stress\<close> writes \<open>ushear\<close> and \<open>Zo_salt\<close> through its pointers: the model returns
  the pair.\<close>

definition shear_stress :: "vic_consts \<Rightarrow> real \<Rightarrow> real \<Rightarrow> error + (real \<times> real)" where
  "shear_stress c U10 ZO =
     (let temp = von_K c * U10 / ln (10 / ZO)
      in case rtnewt c 0.0000001 (temp + 5) 0.000001 U10 10 of
           Inl e \<Rightarrow> Inl e
         | Inr ushear \<Rightarrow>
             (let Zo_salt = 0.12 * ushear * ushear / (2 * G_STD c)
              in if Zo_salt < ZO then Inr (temp, ZO) else Inr (ushear, Zo_salt)))"

subsection \<open>The profile model\<close>

definition sub_with_height ::
  "vic_consts \<Rightarrow> real \<Rightarrow> real \<Rightarrow> real \<Rightarrow> real \<Rightarrow> real \<Rightarrow> real \<Rightarrow> real \<Rightarrow> real \<Rightarrow> real \<Rightarrow> real \<Rightarrow> real
     \<Rightarrow> int \<Rightarrow> real" where
  "sub_with_height c z es Wind AirDens ZO EactAir F hsalt phi_r ushear Zrh flag =
     (let Rrz = 4.6 / 100000 * z powr (- 0.258);
          ALPHAz = 4.08 + 12.6 * z;
          Mz = (4 / 3) * PI c * ice_density c * Rrz * Rrz * Rrz
                 * (1 + (3 / ALPHAz) + (2 / (ALPHAz * ALPHAz)));
          Rmean = ((3 * Mz) / (4 * PI c * ice_density c)) powr (1 / 3);
          terminal_v = 1.1 * 10000000 * Rmean powr 1.8;
          fluctuat_v = 0.005 * Wind powr 1.36;
          Vtz = terminal_v + 3 * fluctuat_v * cos (PI c / 4);
          Re' = 2 * Rmean * Vtz / KIN_VIS;
          Nu = 1.79 + 0.606 * Re' powr 0.5;
          sigz = ((EactAir / es) - 1) * (1 - 0.027 * ln (z / Zrh));
          dMdt = 2 * PI c * Rmean * sigz * Nu / F;
          psi_t = dMdt / Mz;
          temp = (0.5 * ushear * ushear) / (Wind * SETTLING);
          phi_t = phi_r * ((temp + 1) * (z / hsalt) powr ((- 1 * SETTLING) / (von_K c * ushear))
                           - temp)
      in if flag = 1 then psi_t else psi_t * phi_t)"

subsection \<open>The numerical integrator\<close>

text \<open>\<^verbatim>\<open>trapzd\<close>, \<^verbatim>\<open>qromb\<close> only forward their last ten arguments to \<^verbatim>\<open>sub_with_height\<close> (with
  flag 0): the model passes the integrand \<open>g\<close> these arguments determine.

  The summation loop of \<^verbatim>\<open>trapzd\<close>,
  \<^verbatim>\<open>for (sum=0.0, j=1; j<=it; j++, x+=del) sum += sub_with_height(x, ...)\<close>,
  with the number of passes still to make as its counter.\<close>

fun trapzd_sum :: "(real \<Rightarrow> real) \<Rightarrow> nat \<Rightarrow> real \<Rightarrow> real \<Rightarrow> real \<Rightarrow> real" where
  "trapzd_sum g 0 x del summ = summ"
| "trapzd_sum g (Suc k) x del summ = trapzd_sum g k (x + del) del (summ + g x)"

text \<open>\<open>s\<close> is the \<^verbatim>\<open>static double s\<close> of \<^verbatim>\<open>trapzd\<close> as the call finds it; the result is both
  the value returned and the new \<open>s\<close>. \<open>it\<close> is a 32-bit \<^verbatim>\<open>int\<close>, shifted left \<open>n - 2\<close>
  times.\<close>

definition trapzd :: "(real \<Rightarrow> real) \<Rightarrow> real \<Rightarrow> real \<Rightarrow> real \<Rightarrow> nat \<Rightarrow> real" where
  "trapzd g s a b n =
     (if n = 1 then 0.5 * (b - a) * (g a + g b)
      else (let it = ((\<lambda>w. push_bit 1 w) ^^ (n - 2)) (1 :: 32 word);
                tnm = real_of_int (sint it);
                del = (b - a) / tnm;
                x = a + 0.5 * del;
                summ = trapzd_sum g (nat (sint it)) x del 0
            in 0.5 * (s + (b - a) * summ / tnm)))"

text \<open>\<^verbatim>\<open>polint\<close>. \<open>c\<close> and \<open>d\<close> are the two blocks that \<^verbatim>\<open>malloc(n*sizeof(double))\<close>
  returns: lists of \<open>n\<close> elements, valid at the indices \<open>0 .. n - 1\<close>. The source indexes
  them from \<open>1\<close> to \<open>n\<close>. An access outside the block has no defined behaviour in C; here
  it ends the run with the error \<open>HeapOverflow\<close> (with the GNU allocator the write of
  \<^verbatim>\<open>c[n]\<close> lands on the size field of the next chunk and \<^verbatim>\<open>free\<close> aborts). A fresh block
  holds indeterminate values, which are never read before they are written: the model
  starts from zeros. An allocation that fails is not modelled.\<close>

definition block_store :: "real list \<Rightarrow> nat \<Rightarrow> real \<Rightarrow> error + real list" where
  "block_store a i v = (if i < length a then Inr (a[i := v]) else Inl HeapOverflow)"

definition block_load :: "real list \<Rightarrow> nat \<Rightarrow> error + real" where
  "block_load a i = (if i < length a then Inr (a ! i) else Inl HeapOverflow)"

text \<open>The first loop, \<^verbatim>\<open>for (i=1; i<=n; i++)\<close> over the list of its indices, finds the index
  \<open>ns\<close> of the abscissa closest to \<open>x\<close> and fills \<open>c\<close> and \<open>d\<close>.\<close>

fun polint_fill ::
  "(nat \<Rightarrow> real) \<Rightarrow> (nat \<Rightarrow> real) \<Rightarrow> real \<Rightarrow> nat list
     \<Rightarrow> nat \<times> real \<times> real list \<times> real list
     \<Rightarrow> error + (nat \<times> real \<times> real list \<times> real list)" where
  "polint_fill xa ya x [] st = Inr st"
| "polint_fill xa ya x (i # is) (ns, dif, c, d) =
     (let dift = \<bar>x - xa i\<bar>;
          (ns', dif') = (if dift < dif then (i, dift) else (ns, dif))
      in case block_store c i (ya i) of
           Inl e \<Rightarrow> Inl e
         | Inr c' \<Rightarrow>
             (case block_store d i (ya i) of
                Inl e \<Rightarrow> Inl e
              | Inr d' \<Rightarrow> polint_fill xa ya x is (ns', dif', c', d')))"

definition polint_init ::
  "(nat \<Rightarrow> real) \<Rightarrow> (nat \<Rightarrow> real) \<Rightarrow> nat \<Rightarrow> real
     \<Rightarrow> error + (nat \<times> real \<times> real list \<times> real list)" where
  "polint_init xa ya n x =
     polint_fill xa ya x [1 ..< Suc n] (1, \<bar>x - xa 1\<bar>, replicate n 0, replicate n 0)"

text \<open>The inner loop \<^verbatim>\<open>for (i=1; i<=n-m; i++)\<close> for one \<open>m\<close>, over the list of its indices.\<close>

fun polint_row ::
  "(nat \<Rightarrow> real) \<Rightarrow> real \<Rightarrow> nat \<Rightarrow> nat list \<Rightarrow> real list \<times> real list
     \<Rightarrow> error + (real list \<times> real list)" where
  "polint_row xa x m [] cd = Inr cd"
| "polint_row xa x m (i # is) (c, d) =
     (let ho = xa i - x;
          hp = xa (i + m) - x
      in case block_load c (i + 1) of
           Inl e \<Rightarrow> Inl e
         | Inr ci \<Rightarrow>
             (case block_load d i of
                Inl e \<Rightarrow> Inl e
              | Inr di \<Rightarrow>
                  (let w = ci - di;
                       den = ho - hp
                   in if den = 0 then Inl PolintError
                      else (let den' = w / den
                            in case block_store d i (hp * den') of
                                 Inl e \<Rightarrow> Inl e
                               | Inr d' \<Rightarrow>
                                   (case block_store c i (ho * den') of
                                      Inl e \<Rightarrow> Inl e
                                    | Inr c' \<Rightarrow> polint_row xa x m is (c', d'))))))"

text \<open>The outer loop \<^verbatim>\<open>for (m=1; m<n; m++)\<close>, over the list of its indices, with the
  variables \<open>(ns, y, dy)\<close> and the two blocks.\<close>

fun polint_cols ::
  "(nat \<Rightarrow> real) \<Rightarrow> real \<Rightarrow> nat \<Rightarrow> nat list
     \<Rightarrow> nat \<times> real \<times> real \<times> real list \<times> real list \<Rightarrow> error + (real \<times> real)" where
  "polint_cols xa x n [] (ns, y, dy, c, d) = Inr (y, dy)"
| "polint_cols xa x n (m # ms) (ns, y, dy, c, d) =
     (case polint_row xa x m [1 ..< Suc (n - m)] (c, d) of
        Inl e \<Rightarrow> Inl e
      | Inr (c', d') \<Rightarrow>
          if 2 * ns < n - m
          then (case block_load c' (ns + 1) of
                  Inl e \<Rightarrow> Inl e
                | Inr v \<Rightarrow> polint_cols xa x n ms (ns, y + v, v, c', d'))
          else (case block_load d' ns of
                  Inl e \<Rightarrow> Inl e
                | Inr v \<Rightarrow> polint_cols xa x n ms (ns - 1, y + v, v, c', d')))"

text \<open>\<open>dy0\<close> is what \<^verbatim>\<open>*dy\<close> holds when \<^verbatim>\<open>polint\<close> is called; it is returned unchanged only
  when \<open>n \<le> 1\<close>.\<close>

definition polint ::
  "(nat \<Rightarrow> real) \<Rightarrow> (nat \<Rightarrow> real) \<Rightarrow> nat \<Rightarrow> real \<Rightarrow> real \<Rightarrow> error + (real \<times> real)" where
  "polint xa ya n x dy0 =
     (case polint_init xa ya n x of
        Inl e \<Rightarrow> Inl e
      | Inr (ns, dif, c, d) \<Rightarrow> polint_cols xa x n [1 ..< n] (ns - 1, ya ns, dy0, c, d))"

text \<open>The loop of \<^verbatim>\<open>qromb\<close>. \<open>st\<close> is the static accumulator of \<^verbatim>\<open>trapzd\<close>, \<open>s\<close> and \<open>h\<close> the two
  local arrays, \<open>dss\<close> the local the call of \<^verbatim>\<open>polint\<close> overwrites.
  \<^verbatim>\<open>polint(&h[j-K], &s[j-K], K, ...)\<close> reads \<open>h\<close> and \<open>s\<close> from the index \<open>j - K\<close> on.\<close>

function qromb_loop ::
  "(real \<Rightarrow> real) \<Rightarrow> real \<Rightarrow> real \<Rightarrow> nat \<Rightarrow> real \<Rightarrow> real \<Rightarrow> (nat \<Rightarrow> real) \<Rightarrow> (nat \<Rightarrow> real)
     \<Rightarrow> error + real" where
  "qromb_loop g a b j st dss s h =
     (if j \<le> MAX_ITER
      then (let st' = trapzd g st a b j;
                s' = s(j := st')
            in if j \<ge> K
               then (case polint (\<lambda>i. h (j - K + i)) (\<lambda>i. s' (j - K + i)) K 0 dss of
                       Inl e \<Rightarrow> Inl e
                     | Inr (ss, dss') \<Rightarrow>
                         if \<bar>dss'\<bar> \<le> MACHEPS * \<bar>ss\<bar> then Inr ss
                         else qromb_loop g a b (j + 1) st' dss' s' (h(j + 1 := 0.25 * h j)))
               else qromb_loop g a b (j + 1) st' dss s' (h(j + 1 := 0.25 * h j)))
      else Inl TooManySteps)"
  by pat_completeness auto
termination
  by (relation "measure (\<lambda>(g, a, b, j, st, dss, s, h). MAX_ITER + 1 - j)") auto

declare qromb_loop.simps [simp del]

text \<open>Modelled from the spec: \<^verbatim>\<open>nrerror\<close> is not in the file; the spec says that the
  integrator's iteration exhaustion terminates the host process, so a call of \<^verbatim>\<open>nrerror\<close>
  ends the run with an error.

  The static \<open>s\<close> of \<^verbatim>\<open>trapzd\<close> and the locals \<open>dss\<close>, \<open>s\<close>, \<open>h\<close> are written before they are
  read (the first call of \<^verbatim>\<open>trapzd\<close> has \<open>n = 1\<close>, and \<open>K > 1\<close>), so they start at zero
  here.\<close>

definition qromb :: "(real \<Rightarrow> real) \<Rightarrow> real \<Rightarrow> real \<Rightarrow> error + real" where
  "qromb g a b = qromb_loop g a b 1 0 0 (\<lambda>_. 0) ((\<lambda>_. 0)(1 := 1))"

subsection \<open>The flux assembler\<close>

definition CalcSubFlux ::
  "vic_consts \<Rightarrow> real \<Rightarrow> real \<Rightarrow> real \<Rightarrow> real \<Rightarrow> real \<Rightarrow> real \<Rightarrow> real \<Rightarrow> real \<Rightarrow> real \<Rightarrow> real \<Rightarrow> real
     \<Rightarrow> real \<Rightarrow> error + real" where
  "CalcSubFlux c EactAir es Zrh AirDens utshear ushear fe Tsnow Tair U10 Zo_salt F =
     (let particle = utshear * 2.8
      in if SIMPLE \<noteq> 0
         then (let b = 0.25;
                   undersat_2 = ((EactAir / es) - 1) * (1 - 0.027 * ln Zrh + 0.027 * ln 2)
               in Inr (b * undersat_2 * U10 powr 5 / F))
         else (let Qsalt = (CSALT * AirDens / G_STD c) * (utshear / ushear)
                             * (ushear * ushear - utshear * utshear);
                   Qsalt' = (if FETCH \<noteq> 0
                             then Qsalt * (1 + (500 / (3 * fe)) * (exp (- 3 * fe / 500) - 1))
                             else Qsalt);
                   hsalt = 1.6 * ushear * ushear / (2 * G_STD c);
                   phi_s = Qsalt' / (hsalt * particle);
                   psi_s = sub_with_height c (hsalt / 2) es U10 AirDens Zo_salt EactAir F hsalt
                             phi_s ushear Zrh 1;
                   SubFlux = phi_s * psi_s * hsalt;
                   T = 0.5 * (ushear * ushear) / (U10 * SETTLING);
                   ztop = hsalt * (T / (T + 1)) powr ((von_K c * ushear) / (- 1 * SETTLING))
               in case qromb (\<lambda>z. sub_with_height c z es U10 AirDens Zo_salt EactAir F hsalt
                                     phi_s ushear Zrh 0) hsalt ztop of
                    Inl e \<Rightarrow> Inl e
                  | Inr q \<Rightarrow> Inr (SubFlux + q)))"





subsection \<open>The wind-distribution driver\<close>

text \<open>The limits of integration of interval \<open>p\<close>, after the three adjustments that follow
  their computation.\<close>

definition interval_limits :: "nat \<Rightarrow> real \<Rightarrow> real \<Rightarrow> real \<Rightarrow> real \<times> real" where
  "interval_limits p Uo sigma_w area =
     (let (lower, upper) =
            (if p = 0
             then (0, Uo + sigma_w * ln (2 * (real p + 1) * area))
             else if p > 0 \<and> p < NUMINCS div 2
             then (Uo + sigma_w * ln (2 * real p * area),
                   Uo + sigma_w * ln (2 * (real p + 1) * area))
             else if p < NUMINCS - 1 \<and> p \<ge> NUMINCS div 2
             then (Uo - sigma_w * ln (2 - 2 * (real p * area)),
                   Uo - sigma_w * ln (2 - 2 * ((real p + 1) * area)))
             else if p = NUMINCS - 1
             then (Uo - sigma_w * ln (2 - 2 * (real p * area)), Uo * 2)
             else (0, 0));
          lower1 = (if lower < 0 then 0 else lower);
          upper1 = (if upper < 0 then 0 else upper);
          lower2 = (if lower1 > upper1 then upper1 else lower1)
      in (lower2, upper1))"

text \<open>The expected wind speed of the interval, after the two clamps.\<close>

definition interval_wind :: "real \<Rightarrow> real \<Rightarrow> real \<Rightarrow> real \<Rightarrow> real \<Rightarrow> real" where
  "interval_wind lower upper Uo sigma_w area =
     (let U10 = (if lower \<ge> Uo
                 then - 0.5 * ((upper + sigma_w) * exp ((- 1 / sigma_w) * (upper - Uo))
                               - (lower + sigma_w) * exp ((- 1 / sigma_w) * (lower - Uo))) / area
                 else if upper \<le> Uo
                 then 0.5 * ((upper - sigma_w) * exp ((1 / sigma_w) * (upper - Uo))
                             - (lower - sigma_w) * exp ((1 / sigma_w) * (lower - Uo))) / area
                 else 0.4);
          U10a = (if U10 < 0.4 then 0.4 else U10);
          U10b = (if U10a > 25 then 25 else U10a)
      in U10b)"

text \<open>The statement
  \<^verbatim>\<open>if (ushear > utshear && EactAir < es) SubFlux = CalcSubFlux(...); else SubFlux = 0.0;\<close>
  of both branches. The first component records the call: it is the list of the wind
  speeds \<^verbatim>\<open>CalcSubFlux\<close> is called with (one or none).\<close>

definition flux_or_zero ::
  "vic_consts \<Rightarrow> real \<Rightarrow> real \<Rightarrow> real \<Rightarrow> real \<Rightarrow> real \<Rightarrow> real \<Rightarrow> real \<Rightarrow> real \<Rightarrow> real \<Rightarrow> real \<Rightarrow> real
     \<Rightarrow> real \<Rightarrow> real list \<times> (error + real)" where
  "flux_or_zero c EactAir es Zrh AirDens utshear ushear fe Tsnow Tair U10 Zo_salt F =
     (if ushear > utshear \<and> EactAir < es
      then ([U10], CalcSubFlux c EactAir es Zrh AirDens utshear ushear fe Tsnow Tair U10 Zo_salt F)
      else ([], Inr 0))"

text \<open>One pass of the loop over the wind intervals: from the calls recorded so far and
  \<open>Total\<close> to the calls and either the error that ended the run or the new \<open>Total\<close>.\<close>

definition wind_pass ::
  "vic_consts \<Rightarrow> real \<Rightarrow> real \<Rightarrow> real \<Rightarrow> real \<Rightarrow> real \<Rightarrow> real \<Rightarrow> real \<Rightarrow> real \<Rightarrow> real \<Rightarrow> real \<Rightarrow> real
     \<Rightarrow> real \<Rightarrow> real \<Rightarrow> real \<Rightarrow> real \<Rightarrow> real \<Rightarrow> real \<Rightarrow> nat \<Rightarrow> real list \<Rightarrow> real
     \<Rightarrow> real list \<times> (error + real)" where
  "wind_pass c Tair Age SurfaceLiquidWater AirDens EactAir ZO2 Zrh snowdepth Tsnow fe es F
       Uo sigma_w area hv Nd p calls Total' =
     (let (lower, upper) = interval_limits p Uo sigma_w area;
          U10 = interval_wind lower upper Uo sigma_w area;
          Uveg = (if snowdepth < hv then U10 / sqrt (1 + 680 * Nd * (hv - snowdepth)) else U10);
          prob_occurence = get_prob c Tair Age SurfaceLiquidWater Uveg
      in case shear_stress c U10 ZO2 of
           Inl e \<Rightarrow> (calls, Inl e)
         | Inr (ushear, Zo_salt) \<Rightarrow>
             (let utshear = get_thresh c Tair SurfaceLiquidWater U10 ZO2 prob_occurence
                              VAR_THRESHOLD ushear;
                  (cs, r) = flux_or_zero c EactAir es Zrh AirDens utshear ushear fe Tsnow Tair
                              U10 Zo_salt F
              in case r of
                   Inl e \<Rightarrow> (calls @ cs, Inl e)
                 | Inr SubFlux \<Rightarrow>
                     (calls @ cs,
                      Inr (Total' + (1 / real NUMINCS) * SubFlux * prob_occurence))))"

text \<open>The loop \<^verbatim>\<open>for (p=0; p<NUMINCS; p++)\<close> over the list of its indices; it stops at an
  error.\<close>

fun wind_loop ::
  "(nat \<Rightarrow> real list \<Rightarrow> real \<Rightarrow> real list \<times> (error + real)) \<Rightarrow> nat list \<Rightarrow> real list \<Rightarrow> real
     \<Rightarrow> real list \<times> (error + real)" where
  "wind_loop pass [] calls Total' = (calls, Inr Total')"
| "wind_loop pass (p # ps) calls Total' =
     (case pass p calls Total' of
        (calls', Inl e) \<Rightarrow> (calls', Inl e)
      | (calls', Inr Total'') \<Rightarrow> wind_loop pass ps calls' Total'')"

text \<open>The branch for a constant wind. The local \<open>U10\<close> is read there and is assigned only
  inside the loop of the other branch: \<open>U10\<close> is the indeterminate value the
  uninitialised local holds.\<close>

definition constant_wind ::
  "vic_consts \<Rightarrow> real \<Rightarrow> real \<Rightarrow> real \<Rightarrow> real \<Rightarrow> real \<Rightarrow> real \<Rightarrow> real \<Rightarrow> real \<Rightarrow> real \<Rightarrow> real \<Rightarrow> real
     \<Rightarrow> real \<Rightarrow> real \<Rightarrow> real \<Rightarrow> real \<Rightarrow> real \<Rightarrow> real list \<times> (error + real)" where
  "constant_wind c Tair Age SurfaceLiquidWater AirDens EactAir ZO2 Zrh snowdepth Tsnow fe es F
       Uo hv Nd U10 =
     (let Uveg = (if snowdepth < hv then U10 / sqrt (1 + 680 * Nd * (hv - snowdepth)) else U10);
          prob_occurence = get_prob c Tair Age SurfaceLiquidWater Uveg
      in case shear_stress c Uo ZO2 of
           Inl e \<Rightarrow> ([], Inl e)
         | Inr (ushear, Zo_salt) \<Rightarrow>
             (let utshear = get_thresh c Tair SurfaceLiquidWater Uo ZO2 prob_occurence
                              VAR_THRESHOLD ushear;
                  (cs, r) = flux_or_zero c EactAir es Zrh AirDens utshear ushear fe Tsnow Tair
                              Uo Zo_salt F
              in case r of
                   Inl e \<Rightarrow> (cs, Inl e)
                 | Inr SubFlux \<Rightarrow> (cs, Inr (SubFlux * prob_occurence))))"

text \<open>Two locals of \<^verbatim>\<open>CalcBlowingSnow\<close>: the 10 m wind speed computed from the wind speed
  at 2 m, and \<open>sigma_w\<close> as the branches find it, after the substitution of 0.22 for a
  value outside \<open>[-10, 10]\<close>.\<close>

definition wind10_of :: "real \<Rightarrow> real \<Rightarrow> real" where
  "wind10_of Wind ZO2 = Wind * ln (10 / ZO2) / ln ((2 + ZO2) / ZO2)"

definition sigma_w_of :: "real \<Rightarrow> real \<Rightarrow> real \<Rightarrow> real" where
  "sigma_w_of wind10 lag_one sigma_slope =
     (let ratio = (2.4 - (0.4 / 0.9) * lag_one) * sigma_slope;
          sigma_w = wind10 * ratio
      in if sigma_w > 10 \<or> sigma_w < - 10 then 0.22 else sigma_w)"

text \<open>The last statement before the return,
  \<^verbatim>\<open>if (Total < -.00005) Total = -.00005;\<close>, on the calls and outcome of the branches.\<close>

fun floor_total :: "real list \<times> (error + real) \<Rightarrow> real list \<times> (error + real)" where
  "floor_total (calls, Inl e) = (calls, Inl e)"
| "floor_total (calls, Inr Total') =
     (calls, Inr (if Total' < - 0.00005 then - 0.00005 else Total'))"

text \<open>\<^verbatim>\<open>CalcBlowingSnow\<close> up to the end of its two branches, with the record of the calls of
  \<^verbatim>\<open>CalcSubFlux\<close>: the second component is \<open>Total\<close> as the branches leave it, or the error
  that ended the run. The first argument after the constants, \<open>U10\<close>, is the indeterminate
  content of the uninitialised local \<open>U10\<close>; the others are the parameters of the C
  function in their order (\<open>ZO\<close> is the array, of which \<open>ZO[2]\<close> is read). The local \<open>Lv\<close>
  is computed and never used.\<close>

definition CalcBlowingSnow_total ::
  "vic_consts \<Rightarrow> real \<Rightarrow> real \<Rightarrow> real \<Rightarrow> int \<Rightarrow> real \<Rightarrow> real \<Rightarrow> real \<Rightarrow> real \<Rightarrow> real \<Rightarrow> real
     \<Rightarrow> (nat \<Rightarrow> real) \<Rightarrow> real \<Rightarrow> real \<Rightarrow> real \<Rightarrow> real \<Rightarrow> real \<Rightarrow> int \<Rightarrow> int \<Rightarrow> real \<Rightarrow> real \<Rightarrow> real
     \<Rightarrow> real list \<times> (error + real)" where
  "CalcBlowingSnow_total c U10 Dt Tair LastSnow SurfaceLiquidWater Wind Ls AirDens Press EactAir
       ZO Zrh snowdepth lag_one sigma_slope Tsnow iveg Nveg fe displacement roughness =
     (let Age = real_of_int LastSnow * Dt;
          es = svp c Tair;
          Tk = Tair + KELVIN c;
          Ros = 0.622 * es / (287 * Tk);
          Diffusivity = (2.06 / 100000) * (Tk / 273) powr 1.75;
          F = (Ls / (Ka * Tk)) * (Ls * MW c / (R c * Tk) - 1) + 1 / (Diffusivity * Ros);
          wind10 = wind10_of Wind (ZO 2);
          (fe1, sigma_slope1) = (if iveg = Nveg then (1500, 0.0002) else (fe, sigma_slope));
          sigma_w1 = sigma_w_of wind10 lag_one sigma_slope1;
          Uo = wind10;
          hv = (3 / 2) * displacement;
          Nd = (4 / 3) * (roughness / displacement);
          area = 1 / real NUMINCS
      in if snowdepth > 0
         then (if SPATIAL_WIND \<noteq> 0 \<and> sigma_w1 \<noteq> 0
               then wind_loop
                      (wind_pass c Tair Age SurfaceLiquidWater AirDens EactAir (ZO 2) Zrh
                         snowdepth Tsnow fe1 es F Uo sigma_w1 area hv Nd)
                      [0 ..< NUMINCS] [] 0
               else constant_wind c Tair Age SurfaceLiquidWater AirDens EactAir (ZO 2) Zrh
                      snowdepth Tsnow fe1 es F Uo hv Nd U10)
         else ([], Inr 0))"

text \<open>The whole function: the branches, then the clamp.\<close>

definition CalcBlowingSnow_run ::
  "vic_consts \<Rightarrow> real \<Rightarrow> real \<Rightarrow> real \<Rightarrow> int \<Rightarrow> real \<Rightarrow> real \<Rightarrow> real \<Rightarrow> real \<Rightarrow> real \<Rightarrow> real
     \<Rightarrow> (nat \<Rightarrow> real) \<Rightarrow> real \<Rightarrow> real \<Rightarrow> real \<Rightarrow> real \<Rightarrow> real \<Rightarrow> int \<Rightarrow> int \<Rightarrow> real \<Rightarrow> real \<Rightarrow> real
     \<Rightarrow> real list \<times> (error + real)" where
  "CalcBlowingSnow_run c U10 Dt Tair LastSnow SurfaceLiquidWater Wind Ls AirDens Press EactAir
       ZO Zrh snowdepth lag_one sigma_slope Tsnow iveg Nveg fe displacement roughness =
     floor_total
       (CalcBlowingSnow_total c U10 Dt Tair LastSnow SurfaceLiquidWater Wind Ls AirDens Press
          EactAir ZO Zrh snowdepth lag_one sigma_slope Tsnow iveg Nveg fe displacement
          roughness)"

text \<open>The value \<^verbatim>\<open>CalcBlowingSnow\<close> returns, or the error that ended the run.\<close>

definition CalcBlowingSnow ::
  "vic_consts \<Rightarrow> real \<Rightarrow> real \<Rightarrow> real \<Rightarrow> int \<Rightarrow> real \<Rightarrow> real \<Rightarrow> real \<Rightarrow> real \<Rightarrow> real \<Rightarrow> real
     \<Rightarrow> (nat \<Rightarrow> real) \<Rightarrow> real \<Rightarrow> real \<Rightarrow> real \<Rightarrow> real \<Rightarrow> real \<Rightarrow> int \<Rightarrow> int \<Rightarrow> real \<Rightarrow> real \<Rightarrow> real
     \<Rightarrow> error + real" where
  "CalcBlowingSnow c U10 Dt Tair LastSnow SurfaceLiquidWater Wind Ls AirDens Press EactAir
       ZO Zrh snowdepth lag_one sigma_slope Tsnow iveg Nveg fe displacement roughness =
     snd (CalcBlowingSnow_run c U10 Dt Tair LastSnow SurfaceLiquidWater Wind Ls AirDens Press
            EactAir ZO Zrh snowdepth lag_one sigma_slope Tsnow iveg Nveg fe displacement
            roughness)"

text \<open>The wind speeds \<^verbatim>\<open>CalcSubFlux\<close> is called with during the run, in the order of the
  calls.\<close>

definition flux_winds ::
  "vic_consts \<Rightarrow> real \<Rightarrow> real \<Rightarrow> real \<Rightarrow> int \<Rightarrow> real \<Rightarrow> real \<Rightarrow> real \<Rightarrow> real \<Rightarrow> real \<Rightarrow> real
     \<Rightarrow> (nat \<Rightarrow> real) \<Rightarrow> real \<Rightarrow> real \<Rightarrow> real \<Rightarrow> real \<Rightarrow> real \<Rightarrow> int \<Rightarrow> int \<Rightarrow> real \<Rightarrow> real \<Rightarrow> real
     \<Rightarrow> real list" where
  "flux_winds c U10 Dt Tair LastSnow SurfaceLiquidWater Wind Ls AirDens Press EactAir
       ZO Zrh snowdepth lag_one sigma_slope Tsnow iveg Nveg fe displacement roughness =
     fst (CalcBlowingSnow_run c U10 Dt Tair LastSnow SurfaceLiquidWater Wind Ls AirDens Press
            EactAir ZO Zrh snowdepth lag_one sigma_slope Tsnow iveg Nveg fe displacement
            roughness)"

text \<open>Values for the constants of \<^verbatim>\<open>vicNl.h\<close>, used where a theorem is applied to a
  concrete input. The saturation vapour pressure is a Magnus formula in Pa.\<close>

definition vic :: vic_consts where
  "vic = \<lparr> svp = (\<lambda>T. 610.78 * exp (17.269 * T / (237.3 + T))),
           KELVIN = 273.15, MW = 0.018, R = 8.3143, von_K = 0.4, G_STD = 9.81,
           PI = 3.1415927, ice_density = 917 \<rparr>"

subsection \<open>Predicates for the proofs\<close>

text \<open>The variables of the loop of \<^verbatim>\<open>rtnewt\<close> for calm air and \<open>Zr = 10\<close> (the shear
  equation is \<open>1 - 1635 / x\<^sup>2 = 0\<close>) while the iterate is still far above the root: the lower
  end is \<open>1\<close>, the iterate is at least \<open>m\<close> and at least half the upper end, and \<open>f\<close> and
  \<open>df\<close> are the values at \<open>rts\<close>.\<close>

definition newt_far :: "real \<Rightarrow> newt \<Rightarrow> bool" where
  "newt_far m st =
     (case st of (xl, xh, rts, dx, dxold, f, df) \<Rightarrow>
        xl = 1 \<and> rts \<le> xh \<and> xh \<le> 2 * rts \<and> m \<le> rts
        \<and> f = 1 - 1635 / (rts * rts) \<and> df = - 1 / (rts * rts) + 3270 / (rts * rts * rts))"

text \<open>The variables of the loop of \<^verbatim>\<open>rtnewt\<close> lie between \<open>lo\<close> and \<open>hi\<close>.\<close>

definition newt_within :: "real \<Rightarrow> real \<Rightarrow> newt \<Rightarrow> bool" where
  "newt_within lo hi st =
     (case st of (xl, xh, rts, dx, dxold, f, df) \<Rightarrow>
        lo \<le> xl \<and> xl \<le> hi \<and> lo \<le> xh \<and> xh \<le> hi \<and> lo \<le> rts \<and> rts \<le> hi)"

section \<open>Properties\<close>

lemmas flag_defs = SIMPLE_def SPATIAL_WIND_def VAR_THRESHOLD_def FETCH_def CALC_PROB_def

subsection \<open>The driver without snow\<close>

text \<open>C1: for every combination of the other inputs, if \<open>snowdepth \<le> 0\<close> then
  \<^verbatim>\<open>CalcBlowingSnow\<close> returns exactly 0.\<close>

theorem CalcBlowingSnow_no_snow:
  "snowdepth \<le> 0 \<Longrightarrow>
   CalcBlowingSnow c U10 Dt Tair LastSnow SurfaceLiquidWater Wind Ls AirDens Press EactAir
     ZO Zrh snowdepth lag_one sigma_slope Tsnow iveg Nveg fe displacement roughness = Inr 0"
  by (simp add: CalcBlowingSnow_def CalcBlowingSnow_run_def CalcBlowingSnow_total_def Let_def split: prod.splits)

theorem CalcBlowingSnow_no_snow_witness:
  "(0::real) \<le> 0 \<and>
   CalcBlowingSnow vic 0 1 (- 10) 48 0 8 2838000 1.3 85000 260 (\<lambda>_. 0.0005) 2 0 0.8 0.0003
     (- 10) 0 1 300 0.1 0.01 = Inr 0"
  using CalcBlowingSnow_no_snow [of 0 vic 0 1 "- 10" 48 0 8 2838000 "1.3" 85000 260
      "\<lambda>_. 0.0005" 2 "0.8" "0.0003" "- 10" 0 1 300 "0.1" "0.01"]
  by simp

subsection \<open>The root solver at its entry\<close>

text \<open>C8: for every bracket \<open>[x1, x2]\<close>, if the values of the shear equation at \<open>x1\<close> and
  \<open>x2\<close> have the same sign and neither is zero, \<^verbatim>\<open>rtnewt\<close> reports the bracketing failure
  and returns no value.\<close>

theorem rtnewt_not_bracketed:
  "(fst (get_shear c x1 Ur Zr) > 0 \<and> fst (get_shear c x2 Ur Zr) > 0)
     \<or> (fst (get_shear c x1 Ur Zr) < 0 \<and> fst (get_shear c x2 Ur Zr) < 0)
   \<Longrightarrow> rtnewt c x1 x2 acc Ur Zr = Inl RootNotBracketed"
  by (simp add: rtnewt_def Let_def)

theorem rtnewt_not_bracketed_witness:
  "fst (get_shear vic 0.0000001 0 10) < 0 \<and> fst (get_shear vic 5 0 10) < 0
   \<and> rtnewt vic 0.0000001 5 0.000001 0 10 = Inl RootNotBracketed"
proof -
  have h: "fst (get_shear vic 0.0000001 0 10) < 0 \<and> fst (get_shear vic 5 0 10) < 0"
    by (simp add: get_shear_def vic_def)
  with rtnewt_not_bracketed [of vic "0.0000001" 0 10 5 "0.000001"] show ?thesis
    by simp
qed

text \<open>C10: if the shear equation is exactly zero at an end of the bracket, \<^verbatim>\<open>rtnewt\<close>
  returns that end (\<open>x1\<close> when the value at \<open>x1\<close> is zero, otherwise \<open>x2\<close> when the value
  at \<open>x2\<close> is zero), whatever the tolerance: the loop is not entered.\<close>

theorem rtnewt_root_at_endpoint:
  "(fst (get_shear c x1 Ur Zr) = 0 \<longrightarrow> rtnewt c x1 x2 acc Ur Zr = Inr x1)
   \<and> (fst (get_shear c x1 Ur Zr) \<noteq> 0 \<and> fst (get_shear c x2 Ur Zr) = 0
        \<longrightarrow> rtnewt c x1 x2 acc Ur Zr = Inr x2)"
  by (simp add: rtnewt_def Let_def)

text \<open>At \<open>x = 163.5\<close>, \<open>Ur = 0\<close>, \<open>Zr = 163.5\<close> both terms of the shear equation are exactly 1
  (also in binary floating point: \<open>2 * 9.81 * 163.5\<close> and \<open>0.12 * 163.5 * 163.5\<close> round
  to the same \<^verbatim>\<open>double\<close>).\<close>

theorem rtnewt_root_at_endpoint_witness:
  "fst (get_shear vic 163.5 0 163.5) = 0 \<and> rtnewt vic 163.5 200 0.000001 0 163.5 = Inr 163.5
   \<and> fst (get_shear vic 100 0 163.5) \<noteq> 0 \<and> rtnewt vic 100 163.5 0.000001 0 163.5 = Inr 163.5"
proof -
  have a: "fst (get_shear vic 163.5 0 163.5) = 0"
    by (simp add: get_shear_def vic_def)
  have b: "fst (get_shear vic 100 0 163.5) \<noteq> 0"
    by (simp add: get_shear_def vic_def)
  from a b rtnewt_root_at_endpoint [of vic "163.5" 0 "163.5" 200 "0.000001"]
    rtnewt_root_at_endpoint [of vic 100 0 "163.5" "163.5" "0.000001"]
  show ?thesis by simp
qed

subsection \<open>The occurrence probability\<close>

lemma sigma_occurence_pos: "0 < 4.3 + 0.145 * T + 0.00196 * T * (T::real)"
proof -
  have "0 \<le> (0.00196::real) * (T + 0.145 / (2 * 0.00196))^2" by simp
  then show ?thesis by (simp add: power2_eq_square algebra_simps)
qed

text \<open>C7: for every \<open>Tair\<close>, \<open>Age\<close> and wind speed, if \<open>SurfaceLiquidWater < 0.001\<close> and
  \<open>U10 \<le> 3\<close> then \<^verbatim>\<open>get_prob\<close> returns exactly 0; and with \<open>Tair\<close>, \<open>Age\<close> and
  \<open>SurfaceLiquidWater < 0.001\<close> fixed, \<^verbatim>\<open>get_prob\<close> is non-decreasing in \<open>U10\<close> for
  \<open>U10 > 3\<close>. (The constant \<open>PI\<close> of the header is not negative.)\<close>

theorem get_prob_dry:
  assumes "SurfaceLiquidWater < 0.001"
  shows "(U10 \<le> 3 \<longrightarrow> get_prob c Tair Age SurfaceLiquidWater U10 = 0)
       \<and> (0 \<le> PI c \<and> 3 < U10 \<and> U10 \<le> U10' \<longrightarrow>
             get_prob c Tair Age SurfaceLiquidWater U10
               \<le> get_prob c Tair Age SurfaceLiquidWater U10')"
proof (intro conjI impI)
  assume "U10 \<le> 3"
  with assms show "get_prob c Tair Age SurfaceLiquidWater U10 = 0"
    by (simp add: get_prob_def flag_defs Let_def)
next
  assume h: "0 \<le> PI c \<and> 3 < U10 \<and> U10 \<le> U10'"
  define m where "m = 11.2 + 0.365 * Tair + 0.00706 * Tair * Tair + 0.9 * ln Age"
  define sg where "sg = 4.3 + 0.145 * Tair + 0.00196 * Tair * Tair"
  have sg: "0 < sg" unfolding sg_def by (rule sigma_occurence_pos)
  have "sqrt (PI c) * (m - U10') \<le> sqrt (PI c) * (m - U10)"
    using h by (intro mult_left_mono) auto
  then have "sqrt (PI c) * (m - U10') / sg \<le> sqrt (PI c) * (m - U10) / sg"
    using sg by (simp add: divide_right_mono)
  then have "1 + exp (sqrt (PI c) * (m - U10') / sg) \<le> 1 + exp (sqrt (PI c) * (m - U10) / sg)"
    by simp
  moreover have "0 < 1 + exp (sqrt (PI c) * (m - U10') / sg)"
    by (simp add: add_pos_pos)
  ultimately have "1 / (1 + exp (sqrt (PI c) * (m - U10) / sg))
      \<le> 1 / (1 + exp (sqrt (PI c) * (m - U10') / sg))"
    by (intro divide_left_mono) (auto simp: add_pos_pos)
  with assms h show "get_prob c Tair Age SurfaceLiquidWater U10
      \<le> get_prob c Tair Age SurfaceLiquidWater U10'"
    by (simp add: get_prob_def flag_defs Let_def m_def sg_def)
qed

theorem get_prob_dry_witness:
  "(0::real) < 0.001 \<and> get_prob vic (- 10) 48 0 2 = 0
   \<and> get_prob vic (- 10) 48 0 5 \<le> get_prob vic (- 10) 48 0 8"
proof -
  have p: "0 \<le> PI vic" by (simp add: vic_def)
  from get_prob_dry [of 0 2 vic "- 10" 48 8] get_prob_dry [of 0 5 vic "- 10" 48 8] p
  show ?thesis by simp
qed

subsection \<open>The branches of the driver\<close>

lemma rtnewt_error: "rtnewt c x1 x2 acc Ur Zr = Inl e \<Longrightarrow> e = RootNotBracketed"
  by (auto simp: rtnewt_def Let_def split: if_splits prod.splits)

lemma shear_stress_error: "shear_stress c U ZO = Inl e \<Longrightarrow> e = RootNotBracketed"
  by (auto simp: shear_stress_def Let_def split: sum.splits if_splits dest: rtnewt_error)

lemma interval_wind_range:
  "0.4 \<le> interval_wind lower upper Uo sigma_w area \<and> interval_wind lower upper Uo sigma_w area \<le> 25"
  by (simp add: interval_wind_def Let_def)

lemma flux_or_zero_saturated:
  "es \<le> EactAir \<Longrightarrow>
   flux_or_zero c EactAir es Zrh AirDens utshear ushear fe Tsnow Tair U Zo_salt F = ([], Inr 0)"
  by (simp add: flux_or_zero_def)

lemma flux_or_zero_calls:
  "set (fst (flux_or_zero c EactAir es Zrh AirDens utshear ushear fe Tsnow Tair U Zo_salt F)) \<subseteq> {U}"
  by (simp add: flux_or_zero_def)

lemma wind_pass_saturated:
  "es \<le> EactAir \<Longrightarrow>
   wind_pass c Tair Age SurfaceLiquidWater AirDens EactAir ZO2 Zrh snowdepth Tsnow fe es F
       Uo sigma_w area hv Nd p calls T
     \<in> {(calls, Inl RootNotBracketed), (calls, Inr T)}"
  by (auto simp: wind_pass_def Let_def flux_or_zero_saturated
      split: prod.splits sum.splits dest: shear_stress_error)

lemma wind_pass_calls:
  assumes "\<forall>u\<in>set calls. 0.4 \<le> u \<and> u \<le> 25"
  shows "\<forall>u\<in>set (fst (wind_pass c Tair Age SurfaceLiquidWater AirDens EactAir ZO2 Zrh snowdepth
            Tsnow fe es F Uo sigma_w area hv Nd p calls T)). 0.4 \<le> u \<and> u \<le> 25"
proof -
  obtain lower upper where lu: "interval_limits p Uo sigma_w area = (lower, upper)"
    by (cases "interval_limits p Uo sigma_w area")
  define U where "U = interval_wind lower upper Uo sigma_w area"
  have U: "0.4 \<le> U \<and> U \<le> 25" unfolding U_def by (rule interval_wind_range)
  show ?thesis
    using assms U lu
    by (auto simp: wind_pass_def Let_def U_def [symmetric] flux_or_zero_def
        split: prod.splits sum.splits if_splits)
qed

lemma wind_loop_saturated:
  assumes "\<And>p calls T. pass p calls T \<in> {(calls, Inl RootNotBracketed), (calls, Inr T)}"
  shows "wind_loop pass ps calls T \<in> {(calls, Inl RootNotBracketed), (calls, Inr T)}"
proof (induction ps arbitrary: calls T)
  case Nil
  then show ?case by simp
next
  case (Cons p ps)
  from assms [of p calls T] Cons.IH [of calls T] show ?case
    by (auto split: prod.splits sum.splits)
qed

lemma wind_loop_calls:
  assumes "\<And>p calls T. \<forall>u\<in>set calls. P u \<Longrightarrow> \<forall>u\<in>set (fst (pass p calls T)). P u"
    and "\<forall>u\<in>set calls. P u"
  shows "\<forall>u\<in>set (fst (wind_loop pass ps calls T)). P u"
  using assms(2)
proof (induction ps arbitrary: calls T)
  case Nil
  then show ?case by simp
next
  case (Cons p ps)
  obtain calls' r where pr: "pass p calls T = (calls', r)" by (cases "pass p calls T")
  with assms(1) [OF Cons.prems, of p T] have c': "\<forall>u\<in>set calls'. P u" by simp
  show ?case
  proof (cases r)
    case (Inl e)
    with pr c' show ?thesis by simp
  next
    case (Inr T')
    with pr Cons.IH [OF c', of T'] show ?thesis by simp
  qed
qed

lemma CalcBlowingSnow_total_cases:
  assumes "snowdepth \<le> 0 \<Longrightarrow> P ([], Inr 0)"
    and "\<And>F. 0 < snowdepth \<Longrightarrow>
           sigma_w_of (wind10_of Wind (ZO 2)) lag_one
              (if iveg = Nveg then 0.0002 else sigma_slope) \<noteq> 0 \<Longrightarrow>
           P (wind_loop
                (wind_pass c Tair (real_of_int LastSnow * Dt) SurfaceLiquidWater AirDens
                   EactAir (ZO 2) Zrh snowdepth Tsnow (if iveg = Nveg then 1500 else fe)
                   (svp c Tair) F (wind10_of Wind (ZO 2))
                   (sigma_w_of (wind10_of Wind (ZO 2)) lag_one
                      (if iveg = Nveg then 0.0002 else sigma_slope))
                   (1 / real NUMINCS) ((3 / 2) * displacement)
                   ((4 / 3) * (roughness / displacement)))
                [0 ..< NUMINCS] [] 0)"
    and "\<And>F. 0 < snowdepth \<Longrightarrow>
           sigma_w_of (wind10_of Wind (ZO 2)) lag_one
              (if iveg = Nveg then 0.0002 else sigma_slope) = 0 \<Longrightarrow>
           P (constant_wind c Tair (real_of_int LastSnow * Dt) SurfaceLiquidWater AirDens
                EactAir (ZO 2) Zrh snowdepth Tsnow (if iveg = Nveg then 1500 else fe)
                (svp c Tair) F (wind10_of Wind (ZO 2)) ((3 / 2) * displacement)
                ((4 / 3) * (roughness / displacement)) U10)"
  shows "P (CalcBlowingSnow_total c U10 Dt Tair LastSnow SurfaceLiquidWater Wind Ls AirDens
              Press EactAir ZO Zrh snowdepth lag_one sigma_slope Tsnow iveg Nveg fe displacement
              roughness)"
proof (cases "0 < snowdepth")
  case False
  with assms(1) show ?thesis
    by (simp add: CalcBlowingSnow_total_def Let_def case_prod_beta)
next
  case True
  show ?thesis
  proof (cases "sigma_w_of (wind10_of Wind (ZO 2)) lag_one
                  (if iveg = Nveg then 0.0002 else sigma_slope) = 0")
    case z: True
    from assms(3) [OF True z] True z show ?thesis
      by (simp add: CalcBlowingSnow_total_def Let_def case_prod_beta flag_defs split: if_splits)
  next
    case nz: False
    from assms(2) [OF True nz] True nz show ?thesis
      by (simp add: CalcBlowingSnow_total_def Let_def case_prod_beta flag_defs split: if_splits)
  qed
qed

lemma CalcBlowingSnow_run_cases:
  assumes "snowdepth \<le> 0 \<Longrightarrow> P (floor_total ([], Inr 0))"
    and "\<And>F. 0 < snowdepth \<Longrightarrow>
           sigma_w_of (wind10_of Wind (ZO 2)) lag_one
              (if iveg = Nveg then 0.0002 else sigma_slope) \<noteq> 0 \<Longrightarrow>
           P (floor_total
                (wind_loop
                   (wind_pass c Tair (real_of_int LastSnow * Dt) SurfaceLiquidWater AirDens
                      EactAir (ZO 2) Zrh snowdepth Tsnow (if iveg = Nveg then 1500 else fe)
                      (svp c Tair) F (wind10_of Wind (ZO 2))
                      (sigma_w_of (wind10_of Wind (ZO 2)) lag_one
                         (if iveg = Nveg then 0.0002 else sigma_slope))
                      (1 / real NUMINCS) ((3 / 2) * displacement)
                      ((4 / 3) * (roughness / displacement)))
                   [0 ..< NUMINCS] [] 0))"
    and "\<And>F. 0 < snowdepth \<Longrightarrow>
           sigma_w_of (wind10_of Wind (ZO 2)) lag_one
              (if iveg = Nveg then 0.0002 else sigma_slope) = 0 \<Longrightarrow>
           P (floor_total
                (constant_wind c Tair (real_of_int LastSnow * Dt) SurfaceLiquidWater AirDens
                   EactAir (ZO 2) Zrh snowdepth Tsnow (if iveg = Nveg then 1500 else fe)
                   (svp c Tair) F (wind10_of Wind (ZO 2)) ((3 / 2) * displacement)
                   ((4 / 3) * (roughness / displacement)) U10))"
  shows "P (CalcBlowingSnow_run c U10 Dt Tair LastSnow SurfaceLiquidWater Wind Ls AirDens Press
              EactAir ZO Zrh snowdepth lag_one sigma_slope Tsnow iveg Nveg fe displacement
              roughness)"
  unfolding CalcBlowingSnow_run_def
  by (rule CalcBlowingSnow_total_cases [where P = "\<lambda>x. P (floor_total x)"]) (fact assms)+

text \<open>In saturated air, where the shear stress is found the total stays what it was.\<close>

lemma shear_stress_ok:
  "shear_stress c U ZO \<noteq> Inl RootNotBracketed \<Longrightarrow> \<exists>u z. shear_stress c U ZO = Inr (u, z)"
  by (cases "shear_stress c U ZO") (auto dest: shear_stress_error)

lemma wind_pass_saturated_ok:
  assumes "es \<le> EactAir"
    and "\<forall>U. 0.4 \<le> U \<and> U \<le> 25 \<longrightarrow> shear_stress c U ZO2 \<noteq> Inl RootNotBracketed"
  shows "wind_pass c Tair Age SurfaceLiquidWater AirDens EactAir ZO2 Zrh snowdepth Tsnow fe es F
           Uo sigma_w area hv Nd p calls T = (calls, Inr T)"
proof -
  obtain lower upper where lu: "interval_limits p Uo sigma_w area = (lower, upper)"
    by (cases "interval_limits p Uo sigma_w area")
  define U where "U = interval_wind lower upper Uo sigma_w area"
  have "0.4 \<le> U \<and> U \<le> 25" unfolding U_def by (rule interval_wind_range)
  with assms(2) have "shear_stress c U ZO2 \<noteq> Inl RootNotBracketed" by blast
  from shear_stress_ok [OF this] obtain u z where ss: "shear_stress c U ZO2 = Inr (u, z)"
    by blast
  show ?thesis
    by (simp add: wind_pass_def Let_def lu U_def [symmetric] ss
        flux_or_zero_saturated [OF assms(1)])
qed

lemma wind_loop_ok:
  assumes "\<And>p calls T. pass p calls T = (calls, Inr T)"
  shows "wind_loop pass ps calls T = (calls, Inr T)"
  by (induction ps arbitrary: calls T) (simp_all add: assms)

lemma constant_wind_saturated_ok:
  assumes "es \<le> EactAir" and "shear_stress c Uo ZO2 \<noteq> Inl RootNotBracketed"
  shows "constant_wind c Tair Age SurfaceLiquidWater AirDens EactAir ZO2 Zrh snowdepth Tsnow fe
           es F Uo hv Nd U10 = ([], Inr 0)"
proof -
  from shear_stress_ok [OF assms(2)] obtain u z where ss: "shear_stress c Uo ZO2 = Inr (u, z)"
    by blast
  show ?thesis
    by (simp add: constant_wind_def Let_def ss flux_or_zero_saturated [OF assms(1)])
qed

lemma saturated_total:
  assumes "0 < snowdepth" and "svp c Tair \<le> EactAir"
    and "\<forall>U. (0.4 \<le> U \<and> U \<le> 25) \<or> U = wind10_of Wind (ZO 2)
           \<longrightarrow> shear_stress c U (ZO 2) \<noteq> Inl RootNotBracketed"
  shows "CalcBlowingSnow_total c U10 Dt Tair LastSnow SurfaceLiquidWater Wind Ls AirDens Press
           EactAir ZO Zrh snowdepth lag_one sigma_slope Tsnow iveg Nveg fe displacement
           roughness = ([], Inr 0)"
proof (rule CalcBlowingSnow_total_cases, goal_cases)
  case 1
  with assms(1) show ?case by simp
next
  case (2 F)
  show ?case
    by (rule wind_loop_ok, rule wind_pass_saturated_ok [OF assms(2)]) (use assms(3) in blast)
next
  case (3 F)
  show ?case
    by (rule constant_wind_saturated_ok [OF assms(2)]) (use assms(3) in blast)
qed

subsection \<open>The root solver out of passes\<close>

lemma rtnewt_passes_loop:
  "rtnewt_passes c x1 acc Ur Zr (Suc MAX_ITER - j) st \<noteq> None \<Longrightarrow>
   rtnewt_loop c x1 acc Ur Zr j st = 0.025"
proof (induction "Suc MAX_ITER - j" arbitrary: j st)
  case 0
  then have "\<not> j \<le> MAX_ITER" by simp
  then show ?case by (simp add: rtnewt_loop.simps)
next
  case (Suc k)
  from Suc.hyps(2) have j: "j \<le> MAX_ITER" and k: "k = Suc MAX_ITER - (j + 1)" by simp_all
  from Suc.prems Suc.hyps(2) [symmetric] obtain st' where
    b: "rtnewt_body c x1 acc Ur Zr st = Inr st'"
    and p: "rtnewt_passes c x1 acc Ur Zr k st' \<noteq> None"
    by (auto split: sum.splits)
  from p k have "rtnewt_loop c x1 acc Ur Zr (j + 1) st' = 0.025"
    by (intro Suc.hyps(1)) simp_all
  with j b show ?case by (simp add: rtnewt_loop.simps [of c x1 acc Ur Zr j])
qed

text \<open>C9: for every validly bracketed input on which \<^verbatim>\<open>rtnewt\<close> goes through its 100 passes
  without returning (no pass finds the step below the tolerance or the iterate
  unchanged), \<^verbatim>\<open>rtnewt\<close> returns the fixed fallback value 0.025 and reports no failure.\<close>

theorem rtnewt_exhausted:
  assumes "(fst (get_shear c x1 Ur Zr) < 0 \<and> 0 < fst (get_shear c x2 Ur Zr))
         \<or> (0 < fst (get_shear c x1 Ur Zr) \<and> fst (get_shear c x2 Ur Zr) < 0)"
    and "rtnewt_passes c x1 acc Ur Zr MAX_ITER (rtnewt_init c x1 x2 Ur Zr) \<noteq> None"
  shows "rtnewt c x1 x2 acc Ur Zr = Inr 0.025"
proof -
  from assms(2) have "rtnewt_loop c x1 acc Ur Zr 1 (rtnewt_init c x1 x2 Ur Zr) = 0.025"
    by (intro rtnewt_passes_loop) simp
  with assms(1) show ?thesis
    by (auto simp: rtnewt_def Let_def)
qed

text \<open>An input that exhausts the passes: calm air, \<open>Zr = 10\<close> and the bracket \<open>[1, 2\<^sup>2\<^sup>0\<^sup>0]\<close>
  around the root \<open>sqrt 1635\<close>. Far above the root the Newton step leaves the bracket,
  every pass bisects, and a hundred bisections leave the iterate above \<open>2\<^sup>9\<^sup>9\<close>: no pass
  finds a step below the tolerance or an unchanged iterate. (The same passes are made
  in binary floating point, where every iterate is a power of two.)\<close>

lemma get_shear_calm:
  "get_shear vic x 0 10 = (1 - 1635 / (x * x), - 1 / (x * x) + 3270 / (x * x * x))"
  by (simp add: get_shear_def vic_def)

lemma rtnewt_body_far:
  assumes st: "newt_far (2 * m) st" and m: "10000 \<le> m" and acc: "acc \<le> 1"
  shows "\<exists>st'. rtnewt_body vic 1 acc 0 10 st = Inr st' \<and> newt_far m st'"
proof -
  obtain xl xh r dx dxold f df where s: "st = (xl, xh, r, dx, dxold, f, df)"
    by (cases st)
  from st have xl: "xl = 1" and rx: "r \<le> xh" and xr: "xh \<le> 2 * r" and mr: "2 * m \<le> r"
    and f: "f = 1 - 1635 / (r * r)" and df: "df = - 1 / (r * r) + 3270 / (r * r * r)"
    by (simp_all add: newt_far_def s)
  have r: "20000 \<le> r" using m mr by linarith
  then have r0: "0 < r" by linarith
  have rr: "20000 * 20000 \<le> r * r" using r by (intro mult_mono) simp_all
  then have "1635 / (r * r) \<le> 1635 / (20000 * 20000)"
    by (intro divide_left_mono) simp_all
  then have fh: "1 / 2 < f" by (simp add: f)
  have dfe: "df = - ((r - 3270) / (r * r * r))"
    using r0 by (simp add: df field_simps)
  have "(r - 3270) / (r * r * r) \<le> r / (r * r * r)"
    using r0 by (intro divide_right_mono) simp_all
  also have "r / (r * r * r) = 1 / (r * r)" using r0 by simp
  also have "\<dots> \<le> 1 / (20000 * 20000)"
    using rr by (intro divide_left_mono) simp_all
  finally have dfu: "- df \<le> 1 / (20000 * 20000)" by (simp add: dfe)
  have "0 < (r - 3270) / (r * r * r)" using r r0 by simp
  then have dfn: "df < 0" by (simp add: dfe)
  have "(xh - r) * (- df) \<le> r * (- df)"
    using xr dfn by (intro mult_right_mono) simp_all
  also have "r * (- df) = (r - 3270) / (r * r)"
    using r0 by (simp add: dfe)
  also have "\<dots> \<le> r / (r * r)"
    using r0 by (intro divide_right_mono) simp_all
  also have "r / (r * r) = 1 / r" using r0 by simp
  also have "\<dots> \<le> 1 / 20000" using r by (intro divide_left_mono) simp_all
  finally have "(r - xh) * df \<le> 1 / 20000" by (simp add: algebra_simps)
  with fh have F1: "(r - xh) * df - f < 0" by linarith
  have "(r - 1) * df \<le> 0"
    using r dfn by (intro mult_nonneg_nonpos) simp_all
  with fh have F2: "(r - 1) * df - f < 0" by linarith
  from F1 F2 have test: "0 < ((r - xh) * df - f) * ((r - 1) * df - f)"
    by (rule mult_neg_neg)
  define r' where "r' = 1 + (xh - 1) / 2"
  have h: "20000 \<le> xh" using r rx by linarith
  have r'm: "m \<le> r'" unfolding r'_def using mr rx m by argo
  have r'1: "1 \<noteq> r'" using h by (simp add: r'_def)
  have dx': "\<not> \<bar>0.5 * (xh - 1)\<bar> < acc" using h acc by simp
  have r'4: "10000 \<le> r'" using r'm m by linarith
  then have "10000 * 10000 \<le> r' * r'" by (intro mult_mono) simp_all
  then have "1635 / (r' * r') \<le> 1635 / (10000 * 10000)"
    by (intro divide_left_mono) simp_all
  then have f': "\<not> 1 - 1635 / (r' * r') < 0" by simp
  have r'0: "0 \<le> r'" using r'4 by linarith
  from test r'1 dx' f'
  have "rtnewt_body vic 1 acc 0 10 st
          = Inr (1, r', r', 0.5 * (xh - 1), dx, 1 - 1635 / (r' * r'),
                 - 1 / (r' * r') + 3270 / (r' * r' * r'))"
    unfolding r'_def
    by (simp add: rtnewt_body_def rtnewt_tail_def s xl Let_def get_shear_calm)
  moreover have "newt_far m (1, r', r', 0.5 * (xh - 1), dx, 1 - 1635 / (r' * r'),
                 - 1 / (r' * r') + 3270 / (r' * r' * r'))"
    using r'm r'0 by (simp add: newt_far_def)
  ultimately show ?thesis by blast
qed

lemma rtnewt_passes_far:
  "newt_far (2 ^ k * 10000) st \<Longrightarrow> acc \<le> 1 \<Longrightarrow> rtnewt_passes vic 1 acc 0 10 k st \<noteq> None"
proof (induction k arbitrary: st)
  case 0
  then show ?case by simp
next
  case (Suc k)
  from Suc.prems(1) have "newt_far (2 * (2 ^ k * 10000)) st" by (simp add: mult.assoc)
  from rtnewt_body_far [OF this _ Suc.prems(2)]
  obtain st' where b: "rtnewt_body vic 1 acc 0 10 st = Inr st'"
    and f: "newt_far (2 ^ k * 10000) st'"
    by auto
  from Suc.IH [OF f Suc.prems(2)] b show ?case by simp
qed

lemma rtnewt_init_far: "newt_far (2 ^ 100 * 10000) (rtnewt_init vic 1 (2 ^ 200) 0 10)"
  by (simp add: rtnewt_init_def get_shear_calm newt_far_def Let_def)

theorem rtnewt_exhausted_witness:
  "((fst (get_shear vic 1 0 10) < 0 \<and> 0 < fst (get_shear vic (2 ^ 200) 0 10))
    \<and> rtnewt_passes vic 1 0.000001 0 10 MAX_ITER (rtnewt_init vic 1 (2 ^ 200) 0 10) \<noteq> None)
   \<and> rtnewt vic 1 (2 ^ 200) 0.000001 0 10 = Inr 0.025"
proof -
  have b: "fst (get_shear vic 1 0 10) < 0 \<and> 0 < fst (get_shear vic (2 ^ 200) 0 10)"
    by (simp add: get_shear_calm)
  have p: "rtnewt_passes vic 1 0.000001 0 10 MAX_ITER (rtnewt_init vic 1 (2 ^ 200) 0 10) \<noteq> None"
    unfolding MAX_ITER_def by (rule rtnewt_passes_far [OF rtnewt_init_far]) simp
  from rtnewt_exhausted [OF disjI1 [OF b] p] b p show ?thesis
    by simp
qed

subsection \<open>The root solver stays in its bracket\<close>

lemma rtnewt_tail_within:
  assumes "lo \<le> xl" "xl \<le> hi" "lo \<le> xh" "xh \<le> hi" "lo \<le> r" "r \<le> hi"
  shows "case rtnewt_tail c acc Ur Zr xl xh r d dold of
           Inl v \<Rightarrow> lo \<le> v \<and> v \<le> hi
         | Inr st' \<Rightarrow> newt_within lo hi st'"
  using assms
  by (simp add: rtnewt_tail_def newt_within_def Let_def split: prod.splits)

lemma newton_step_between:
  assumes "df \<noteq> (0::real)" and "\<not> ((rts - xh) * df - f) * ((rts - x1) * df - f) > 0"
  shows "(rts - f / df - xh) * (rts - f / df - x1) \<le> 0"
proof -
  have a: "(rts - xh) * df - f = df * (rts - f / df - xh)"
    using assms(1) by (simp add: field_simps)
  have b: "(rts - x1) * df - f = df * (rts - f / df - x1)"
    using assms(1) by (simp add: field_simps)
  from assms(2) have "(df * df) * ((rts - f / df - xh) * (rts - f / df - x1)) \<le> (df * df) * 0"
    unfolding a b by (simp add: mult_ac)
  moreover from assms(1) not_real_square_gt_zero [of df] have "0 < df * df"
    by blast
  ultimately show ?thesis
    by (simp only: mult_le_cancel_left_pos)
qed

lemma rtnewt_body_within:
  assumes "newt_within lo hi st" and "lo \<le> x1" and "x1 \<le> hi"
  shows "case rtnewt_body c x1 acc Ur Zr st of
           Inl v \<Rightarrow> lo \<le> v \<and> v \<le> hi
         | Inr st' \<Rightarrow> newt_within lo hi st'"
proof -
  obtain xl xh rts dx dxold f df where st: "st = (xl, xh, rts, dx, dxold, f, df)"
    by (cases st)
  from assms(1) st have w: "lo \<le> xl" "xl \<le> hi" "lo \<le> xh" "xh \<le> hi" "lo \<le> rts" "rts \<le> hi"
    by (simp_all add: newt_within_def)
  show ?thesis
  proof (cases "((rts - xh) * df - f) * ((rts - x1) * df - f) > 0 \<or> \<bar>2 * f\<bar> > \<bar>dxold * df\<bar>")
    case True
    have m: "lo \<le> xl + 0.5 * (xh - xl)" "xl + 0.5 * (xh - xl) \<le> hi"
      using w(1-4) by argo+
    from rtnewt_tail_within [OF w(1-4) m, of c acc Ur Zr "0.5 * (xh - xl)" dx] True st m w
    show ?thesis
      by (simp add: rtnewt_body_def Let_def)
  next
    case False
    show ?thesis
    proof (cases "df = 0")
      case True
      with False st w show ?thesis
        by (simp add: rtnewt_body_def Let_def)
    next
      case df: False
      from False have "\<not> ((rts - xh) * df - f) * ((rts - x1) * df - f) > 0" by simp
      from newton_step_between [OF df this]
      have "(rts - f / df - xh) * (rts - f / df - x1) \<le> 0" .
      then have "(xh \<le> rts - f / df \<and> rts - f / df \<le> x1)
          \<or> (x1 \<le> rts - f / df \<and> rts - f / df \<le> xh)"
        by (auto simp: mult_le_0_iff)
      with w assms(2,3) have m: "lo \<le> rts - f / df" "rts - f / df \<le> hi"
        by auto
      from rtnewt_tail_within [OF w(1-4) m, of c acc Ur Zr "f / df" dx] False st m w
      show ?thesis
        by (simp add: rtnewt_body_def Let_def)
    qed
  qed
qed

lemma rtnewt_loop_within:
  assumes "lo \<le> x1" and "x1 \<le> hi"
  shows "newt_within lo hi st \<Longrightarrow>
         (lo \<le> rtnewt_loop c x1 acc Ur Zr j st \<and> rtnewt_loop c x1 acc Ur Zr j st \<le> hi)
         \<or> rtnewt_loop c x1 acc Ur Zr j st = 0.025"
proof (induction "Suc MAX_ITER - j" arbitrary: j st)
  case 0
  then have "\<not> j \<le> MAX_ITER" by simp
  then show ?case by (simp add: rtnewt_loop.simps [of c x1 acc Ur Zr j])
next
  case (Suc k)
  from Suc.hyps(2) have j: "j \<le> MAX_ITER" and k: "k = Suc MAX_ITER - (j + 1)" by simp_all
  note b = rtnewt_body_within [OF Suc.prems assms, of c acc Ur Zr]
  show ?case
  proof (cases "rtnewt_body c x1 acc Ur Zr st")
    case (Inl v)
    from Inl b have "lo \<le> v \<and> v \<le> hi" by simp
    with j Inl show ?thesis
      by (simp add: rtnewt_loop.simps [of c x1 acc Ur Zr j])
  next
    case (Inr st')
    from Inr b have "newt_within lo hi st'" by simp
    from Suc.hyps(1) [OF k this] j Inr show ?thesis
      by (simp add: rtnewt_loop.simps [of c x1 acc Ur Zr j])
  qed
qed

lemma rtnewt_within:
  assumes "rtnewt c x1 x2 acc Ur Zr = Inr r" and "x1 \<le> x2"
  shows "(x1 \<le> r \<and> r \<le> x2) \<or> r = 0.025"
proof -
  have i: "newt_within x1 x2 (rtnewt_init c x1 x2 Ur Zr)"
    using assms(2) by (simp add: rtnewt_init_def newt_within_def Let_def split: prod.splits)
  from rtnewt_loop_within [OF order_refl assms(2) i, of c acc Ur Zr 1] assms
  show ?thesis
    by (auto simp: rtnewt_def Let_def split: if_splits)
qed


subsection \<open>The shear stress over a surface of roughness 1\<close>

text \<open>With \<open>ZO[2] = 1\<close> and the constants \<open>vic\<close> the bracket of \<^verbatim>\<open>shear_stress\<close> is valid, the root
  found gives a saltation roughness below \<open>ZO[2]\<close>, and \<^verbatim>\<open>shear_stress\<close> returns the log-law
  shear velocity.\<close>

lemma exp_fourth_lower:
  assumes "0 \<le> (y::real)"
  shows "(y / 4) ^ 4 \<le> exp y"
proof -
  have "1 + y / 4 \<le> exp (y / 4)" by (rule exp_ge_add_one_self)
  moreover have "y / 4 \<le> 1 + y / 4" by simp
  ultimately have "y / 4 \<le> exp (y / 4)" by linarith
  with assms have "(y / 4) ^ 4 \<le> exp (y / 4) ^ 4"
    by (intro power_mono) simp_all
  also have "exp (y / 4) ^ 4 = exp (of_nat 4 * (y / 4))"
    by (rule exp_of_nat_mult [symmetric])
  also have "of_nat 4 * (y / 4) = y" by simp
  finally show ?thesis .
qed

lemma get_shear_vic_fst:
  "fst (get_shear vic x Ur 10) = exp (0.4 * Ur / x) - 1635 / (x * x)"
  by (simp add: get_shear_def vic_def field_simps)

lemma shear_low_end_pos:
  assumes "0.4 \<le> Uo"
  shows "0 < fst (get_shear vic 0.0000001 Uo 10)"
proof -
  define y where "y = 4000000 * Uo"
  have y: "1600000 \<le> y" using assms by (simp add: y_def)
  then have "(1600000 / 4) ^ 4 \<le> (y / 4) ^ 4"
    by (intro power_mono) simp_all
  also have "(y / 4) ^ 4 \<le> exp y"
    using y by (intro exp_fourth_lower) simp
  finally have "(1600000 / 4) ^ 4 \<le> exp y" .
  moreover have "(163500000000000000::real) < (1600000 / 4) ^ 4"
    by simp
  ultimately have "163500000000000000 < exp y" by linarith
  then show ?thesis
    by (simp add: get_shear_vic_fst y_def)
qed

lemma shear_high_end_neg:
  assumes "0 < Uo" and "0.4 * Uo / ln 10 \<le> 6"
  shows "fst (get_shear vic (0.4 * Uo / ln 10 + 5) Uo 10) < 0"
proof -
  define t where "t = 0.4 * Uo / ln (10::real)"
  have l: "0 < ln (10::real)" by simp
  have t0: "0 < t" using assms(1) l by (simp add: t_def)
  have t6: "t \<le> 6" using assms(2) by (simp add: t_def)
  have u: "0.4 * Uo = t * ln 10" using l by (simp add: t_def)
  have "t / (t + 5) \<le> 1" using t0 by simp
  then have "ln 10 * (t / (t + 5)) \<le> ln 10 * 1"
    using l by (intro mult_left_mono) simp_all
  then have "0.4 * Uo / (t + 5) \<le> ln 10"
    unfolding u by (simp add: mult.commute)
  then have "exp (0.4 * Uo / (t + 5)) \<le> exp (ln 10)"
    by (simp only: exp_le_cancel_iff)
  then have e: "exp (0.4 * Uo / (t + 5)) \<le> 10" by simp
  have "(t + 5) * (t + 5) \<le> 11 * 11"
    using t0 t6 by (intro mult_mono) simp_all
  then have "1635 / (11 * 11) \<le> 1635 / ((t + 5) * (t + 5))"
    using t0 by (intro divide_left_mono) simp_all
  then have "10 < 1635 / ((t + 5) * (t + 5))" by simp
  with e have "exp (0.4 * Uo / (t + 5)) - 1635 / ((t + 5) * (t + 5)) < 0" by linarith
  then show ?thesis
    by (simp only: get_shear_vic_fst t_def)
qed

lemma shear_stress_flat:
  assumes "0.4 \<le> Uo" and "0.4 * Uo / ln 10 \<le> 6"
  shows "shear_stress vic Uo 1 = Inr (0.4 * Uo / ln 10, 1)"
proof -
  define t where "t = 0.4 * Uo / ln (10::real)"
  have t0: "0 < t" using assms(1) by (simp add: t_def)
  have t6: "t \<le> 6" using assms(2) by (simp add: t_def)
  have lo: "0 < fst (get_shear vic 0.0000001 Uo 10)"
    by (rule shear_low_end_pos [OF assms(1)])
  have hi: "fst (get_shear vic (t + 5) Uo 10) < 0"
    unfolding t_def using assms by (intro shear_high_end_neg) simp_all
  from lo hi obtain r where r: "rtnewt vic 0.0000001 (t + 5) 0.000001 Uo 10 = Inr r"
    by (simp add: rtnewt_def Let_def)
  from rtnewt_within [OF r] t0 have "(0.0000001 \<le> r \<and> r \<le> t + 5) \<or> r = 0.025"
    by simp
  with t6 have r0: "0 \<le> r" and r11: "r \<le> 11" by auto
  then have "r * r \<le> 11 * 11" by (intro mult_mono) simp_all
  then have "0.12 * r * r / (2 * 9.81) < 1" by simp
  with r show ?thesis
    by (simp add: shear_stress_def Let_def vic_def t_def)
qed


lemma ln_3_ge_1: "1 \<le> ln (3::real)"
proof -
  have "ln (exp 1) \<le> ln (3::real)"
    by (subst ln_le_cancel_iff) (simp_all add: exp_le)
  then show ?thesis by simp
qed

lemma ln_10_over_ln_3: "2 \<le> ln 10 / ln (3::real)" "ln 10 / ln (3::real) \<le> 3"
proof -
  have p: "0 < ln (3::real)" by simp
  have e2: "ln (9::real) = 2 * ln 3" using ln_realpow [of "3::real" 2] by simp
  have e3: "ln (27::real) = 3 * ln 3" using ln_realpow [of "3::real" 3] by simp
  have "ln (9::real) \<le> ln 10" by (subst ln_le_cancel_iff) simp_all
  then have "2 * ln (3::real) \<le> ln 10" by (simp only: e2)
  with p show "2 \<le> ln 10 / ln (3::real)" by (simp add: pos_le_divide_eq)
  have "ln 10 \<le> ln (27::real)" by (subst ln_le_cancel_iff) simp_all
  then have "ln 10 \<le> 3 * ln (3::real)" by (simp only: e3)
  with p show "ln 10 / ln (3::real) \<le> 3" by (simp add: pos_divide_le_eq)
qed

lemma wind10_flat:
  assumes "0 \<le> Wind"
  shows "2 * Wind \<le> wind10_of Wind 1" "wind10_of Wind 1 \<le> 3 * Wind"
    "0.4 * wind10_of Wind 1 / ln 10 \<le> 0.4 * Wind"
proof -
  have w: "wind10_of Wind 1 = Wind * (ln 10 / ln 3)"
    by (simp add: wind10_of_def)
  from assms ln_10_over_ln_3(1) have "Wind * 2 \<le> Wind * (ln 10 / ln 3)"
    by (intro mult_left_mono)
  then show "2 * Wind \<le> wind10_of Wind 1" by (simp add: w)
  from assms ln_10_over_ln_3(2) have "Wind * (ln 10 / ln 3) \<le> Wind * 3"
    by (intro mult_left_mono)
  then show "wind10_of Wind 1 \<le> 3 * Wind" by (simp add: w)
  have "0.4 * wind10_of Wind 1 / ln 10 = 0.4 * Wind / ln 3"
    by (simp add: w)
  also have "\<dots> \<le> 0.4 * Wind / 1"
    using assms ln_3_ge_1 by (intro divide_left_mono) simp_all
  finally show "0.4 * wind10_of Wind 1 / ln 10 \<le> 0.4 * Wind" by simp
qed

lemma vic_sel:
  "von_K vic = 0.4" "G_STD vic = 9.81" "PI vic = 3.1415927" "KELVIN vic = 273.15"
  "svp vic T = 610.78 * exp (17.269 * T / (237.3 + T))"
  by (simp_all add: vic_def)

lemma constant_wind_flat:
  assumes "1 \<le> Uo" and "0.4 * Uo / ln 10 \<le> 6" and "0.001 \<le> SurfaceLiquidWater"
    and "EactAir < es"
  shows "9.9 < Uo \<or> (Uo < 9.9 \<and> 0.001 < get_prob vic Tair Age SurfaceLiquidWater
                          (if snowdepth < hv then g / sqrt (1 + 680 * Nd * (hv - snowdepth))
                           else g)) \<Longrightarrow>
         fst (constant_wind vic Tair Age SurfaceLiquidWater AirDens EactAir 1 Zrh snowdepth
                Tsnow fe es F Uo hv Nd g) = [Uo]"
    and "Uo < 9.9 \<and> get_prob vic Tair Age SurfaceLiquidWater
                          (if snowdepth < hv then g / sqrt (1 + 680 * Nd * (hv - snowdepth))
                           else g) \<le> 0.001 \<Longrightarrow>
         constant_wind vic Tair Age SurfaceLiquidWater AirDens EactAir 1 Zrh snowdepth
                Tsnow fe es F Uo hv Nd g = ([], Inr 0)"
proof -
  have l: "0 < ln (10::real)" by simp
  have a: "Uo < 9.9 \<Longrightarrow> 0.4 * Uo / ln 10 < 0.4 * 9.9 / ln 10"
    using l by (intro divide_strict_right_mono) simp_all
  have b: "9.9 < Uo \<Longrightarrow> 0.4 * 9.9 / ln 10 < 0.4 * Uo / ln 10"
    using l by (intro divide_strict_right_mono) simp_all
  have c: "0.4 * (Uo - 0.5) / ln 10 < 0.4 * Uo / ln 10"
    using l by (intro divide_strict_right_mono) simp_all
  from assms(1) have "0.4 \<le> Uo" by simp
  note ss = shear_stress_flat [OF this assms(2)]
  {
    assume "9.9 < Uo \<or> (Uo < 9.9 \<and> 0.001 < get_prob vic Tair Age SurfaceLiquidWater
                          (if snowdepth < hv then g / sqrt (1 + 680 * Nd * (hv - snowdepth))
                           else g))"
    then show "fst (constant_wind vic Tair Age SurfaceLiquidWater AirDens EactAir 1 Zrh snowdepth
                Tsnow fe es F Uo hv Nd g) = [Uo]"
    proof
      assume h: "9.9 < Uo"
      from b [OF h] have "\<not> 0.4 * Uo / ln 10 < 0.4 * 9.9 / ln 10" by simp
      with b [OF h] assms(3,4) show ?thesis
        by (simp add: constant_wind_def ss Let_def get_thresh_def flux_or_zero_def flag_defs
            vic_sel split: sum.splits prod.splits)
    next
      assume h: "Uo < 9.9 \<and> 0.001 < get_prob vic Tair Age SurfaceLiquidWater
                          (if snowdepth < hv then g / sqrt (1 + 680 * Nd * (hv - snowdepth))
                           else g)"
      with a c assms(3,4) show ?thesis
        by (simp add: constant_wind_def ss Let_def get_thresh_def flux_or_zero_def flag_defs
            vic_sel split: sum.splits prod.splits)
    qed
  }
  {
    assume h: "Uo < 9.9 \<and> get_prob vic Tair Age SurfaceLiquidWater
                          (if snowdepth < hv then g / sqrt (1 + 680 * Nd * (hv - snowdepth))
                           else g) \<le> 0.001"
    with a have "\<not> 0.4 * 9.9 / ln 10 < 0.4 * Uo / ln 10" by simp
    with h a assms(3,4) show "constant_wind vic Tair Age SurfaceLiquidWater AirDens EactAir 1
        Zrh snowdepth Tsnow fe es F Uo hv Nd g = ([], Inr 0)"
      by (simp add: constant_wind_def ss Let_def get_thresh_def flux_or_zero_def flag_defs
          vic_sel)
  }
qed


subsection \<open>The wind speeds passed to the flux assembler\<close>

lemma fst_floor_total: "fst (floor_total br) = fst br"
  by (cases br rule: floor_total.cases) simp_all

lemma sigma_w_of_flat: "sigma_w_of w lag_one 0 = 0"
  by (simp add: sigma_w_of_def)

text \<open>C5, as the code has it: in the loop over the wind intervals (\<open>sigma_w \<noteq> 0\<close>) every
  wind speed passed to \<^verbatim>\<open>CalcSubFlux\<close> lies within \<open>[0.4, 25]\<close>. The constant-wind branch
  passes the 10 m wind speed \<open>Uo\<close> as it is.\<close>

theorem spatial_flux_winds_in_range:
  assumes "sigma_w_of (wind10_of Wind (ZO 2)) lag_one
             (if iveg = Nveg then 0.0002 else sigma_slope) \<noteq> 0"
  shows "\<forall>u\<in>set (flux_winds c U10 Dt Tair LastSnow SurfaceLiquidWater Wind Ls AirDens Press
                      EactAir ZO Zrh snowdepth lag_one sigma_slope Tsnow iveg Nveg fe
                      displacement roughness). 0.4 \<le> u \<and> u \<le> 25"
  unfolding flux_winds_def
proof (rule CalcBlowingSnow_run_cases, goal_cases)
  case 1
  then show ?case by simp
next
  case (2 F)
  show ?case
    unfolding fst_floor_total
    by (rule wind_loop_calls [where P = "\<lambda>u. 0.4 \<le> u \<and> u \<le> 25"])
       (rule wind_pass_calls, simp_all)
next
  case (3 F)
  with assms show ?case by simp
qed

text \<open>The constant-wind branch (\<open>sigma_slope = 0\<close>, hence \<open>sigma_w = 0\<close>) with a wind of 15 m/s
  at 2 m: \<^verbatim>\<open>CalcSubFlux\<close> is called once, with the 10 m wind speed, which is above 25.\<close>

theorem constant_wind_unclamped:
  "flux_winds vic 0 1 (- 10) 48 0.01 15 2838000 1.3 85000 0 (\<lambda>_. 1) 2 1 0.8 0 (- 10) 0 1 300
     0.1 0.01 = [wind10_of 15 1]
   \<and> 25 < wind10_of 15 1"
proof -
  have w: "2 * 15 \<le> wind10_of 15 1" "0.4 * wind10_of 15 1 / ln 10 \<le> 0.4 * 15"
    by (rule wind10_flat, simp)+
  have es: "0 < svp vic (- 10)" by (simp add: vic_sel)
  have "fst (CalcBlowingSnow_run vic 0 1 (- 10) 48 0.01 15 2838000 1.3 85000 0 (\<lambda>_. 1) 2 1 0.8 0
          (- 10) 0 1 300 0.1 0.01) = [wind10_of 15 1]"
  proof (rule CalcBlowingSnow_run_cases, goal_cases)
    case 1
    then show ?case by simp
  next
    case (2 F)
    then show ?case by (simp add: sigma_w_of_flat)
  next
    case (3 F)
    show ?case
      unfolding fst_floor_total
      by (rule constant_wind_flat(1)) (use w es in simp_all)
  qed
  with w(1) show ?thesis by (simp add: flux_winds_def)
qed


theorem spatial_flux_winds_in_range_witness:
  "sigma_w_of (wind10_of 8 ((\<lambda>_. 1) (2::nat))) 0.8 (if (0::int) = 1 then 0.0002 else 0.0003) \<noteq> 0
   \<and> list_all (\<lambda>u. 0.4 \<le> u \<and> u \<le> 25)
        (flux_winds vic 0 1 (- 10) 48 0 8 2838000 1.3 85000 260 (\<lambda>_. 1) 2 0.3 0.8 0.0003
           (- 10) 0 1 300 0.1 0.01)"
proof -
  have w: "2 * 8 \<le> wind10_of 8 1" "wind10_of 8 1 \<le> 3 * 8"
    by (rule wind10_flat, simp)+
  then have s: "sigma_w_of (wind10_of 8 ((\<lambda>_. 1) (2::nat))) 0.8
                  (if (0::int) = 1 then 0.0002 else 0.0003) \<noteq> 0"
    by (simp add: sigma_w_of_def Let_def)
  from spatial_flux_winds_in_range [OF s, of vic 0 1 "- 10" 48 0 2838000 "1.3" 85000 260 2
      "0.3" "- 10" 300 "0.1" "0.01"] s
  show ?thesis
    by (simp add: list_all_iff)
qed

subsection \<open>The uninitialised wind speed of the constant-wind branch\<close>

text \<open>C6: in the constant-wind branch the vegetation adjustment reads the local \<open>U10\<close>, which
  this branch never assigns, instead of \<open>Uo\<close>. At one input (wet snow, 2 m/s at 2 m,
  \<open>sigma_slope = 0\<close>) the run depends on what the local holds: with 0 the occurrence
  probability is 0, \<^verbatim>\<open>CalcSubFlux\<close> is not called and 0 is returned; with 21 the probability
  is 1/2, the threshold is recomputed and \<^verbatim>\<open>CalcSubFlux\<close> is called.\<close>

theorem constant_wind_reads_uninitialised_U10:
  "flux_winds vic 0 1 (- 10) 48 0.01 2 2838000 1.3 85000 0 (\<lambda>_. 1) 2 1 0.8 0 (- 10) 0 1 300
     0.1 0.01 = []
   \<and> CalcBlowingSnow vic 0 1 (- 10) 48 0.01 2 2838000 1.3 85000 0 (\<lambda>_. 1) 2 1 0.8 0 (- 10) 0 1
       300 0.1 0.01 = Inr 0
   \<and> flux_winds vic 21 1 (- 10) 48 0.01 2 2838000 1.3 85000 0 (\<lambda>_. 1) 2 1 0.8 0 (- 10) 0 1 300
       0.1 0.01 = [wind10_of 2 1]"
proof -
  have w: "2 * 2 \<le> wind10_of 2 1" "wind10_of 2 1 \<le> 3 * 2"
    "0.4 * wind10_of 2 1 / ln 10 \<le> 0.4 * 2"
    by (rule wind10_flat, simp)+
  have es: "0 < svp vic (- 10)" by (simp add: vic_sel)
  have p0: "get_prob vic T Age (1 / 100) 0 = 0" for T Age
    by (simp add: get_prob_def flag_defs)
  have p21: "get_prob vic T Age (1 / 100) 21 = 1 / 2" for T Age
    by (simp add: get_prob_def flag_defs)
  have a: "CalcBlowingSnow_run vic 0 1 (- 10) 48 0.01 2 2838000 1.3 85000 0 (\<lambda>_. 1) 2 1 0.8 0
          (- 10) 0 1 300 0.1 0.01 = ([], Inr 0)"
  proof (rule CalcBlowingSnow_run_cases, goal_cases)
    case 1
    then show ?case by simp
  next
    case (2 F)
    then show ?case by (simp add: sigma_w_of_flat)
  next
    case (3 F)
    have "constant_wind vic (- 10) Age 0.01 1.3 0 1 2 1 (- 10) fe' (svp vic (- 10)) F
            (wind10_of 2 1) hv Nd 0 = ([], Inr 0)" for Age fe' hv Nd
      by (rule constant_wind_flat(2)) (use w es in \<open>simp_all add: p0\<close>)
    then show ?case by simp
  qed
  have b: "fst (CalcBlowingSnow_run vic 21 1 (- 10) 48 0.01 2 2838000 1.3 85000 0 (\<lambda>_. 1) 2 1 0.8
          0 (- 10) 0 1 300 0.1 0.01) = [wind10_of 2 1]"
  proof (rule CalcBlowingSnow_run_cases, goal_cases)
    case 1
    then show ?case by simp
  next
    case (2 F)
    then show ?case by (simp add: sigma_w_of_flat)
  next
    case (3 F)
    show ?case
      unfolding fst_floor_total
      by (rule constant_wind_flat(1)) (use w es in \<open>simp_all add: p21\<close>)
  qed
  from a b show ?thesis
    by (simp add: flux_winds_def CalcBlowingSnow_def)
qed

subsection \<open>The blocks of the interpolation\<close>

text \<open>The first loop of \<^verbatim>\<open>polint\<close> runs up to \<open>i = n\<close> and writes \<^verbatim>\<open>c[n]\<close>, past the \<open>n\<close> elements
  of the block: whenever \<open>n \<ge> 1\<close> the call ends there. \<^verbatim>\<open>qromb\<close> calls \<^verbatim>\<open>polint\<close> with \<open>n = K = 5\<close>
  in its fifth pass, and nothing makes it return before.\<close>

lemma polint_fill_overflow:
  "length c = n \<Longrightarrow> length d = n \<Longrightarrow> i \<le> n \<Longrightarrow>
   polint_fill xa ya x [i ..< Suc n] (ns, dif, c, d) = Inl HeapOverflow"
proof (induction "n - i" arbitrary: i ns dif c d)
  case 0
  then have "i = n" by simp
  with "0.prems" show ?case by (simp add: block_store_def Let_def split: prod.splits)
next
  case (Suc k)
  then have i: "i < n" by simp
  then have u: "[i ..< Suc n] = i # [Suc i ..< Suc n]" by (simp add: upt_conv_Cons)
  have "polint_fill xa ya x [Suc i ..< Suc n] (ns', dif', c[i := ya i], d[i := ya i])
          = Inl HeapOverflow" for ns' dif'
    by (rule Suc.hyps(1)) (use Suc.hyps(2) Suc.prems i in simp_all)
  with i Suc.prems show ?case
    by (simp add: u block_store_def Let_def del: upt_Suc split: prod.splits)
qed

lemma polint_overflow: "1 \<le> n \<Longrightarrow> polint xa ya n x dy0 = Inl HeapOverflow"
  by (simp add: polint_def polint_init_def polint_fill_overflow del: upt_Suc)

lemma qromb_loop_overflow:
  "1 \<le> j \<Longrightarrow> j \<le> 5 \<Longrightarrow> qromb_loop g a b j st dss s h = Inl HeapOverflow"
proof (induction "5 - j" arbitrary: j st dss s h)
  case 0
  then have "j = 5" by simp
  then show ?case
    by (simp add: qromb_loop.simps [of g a b 5] Let_def K_def MAX_ITER_def polint_overflow)
next
  case (Suc k)
  then have j: "j < 5" by simp
  have "qromb_loop g a b (j + 1) st' dss s' h' = Inl HeapOverflow" for st' s' h'
    by (rule Suc.hyps(1)) (use Suc.hyps(2) j in simp_all)
  with j show ?case
    by (simp add: qromb_loop.simps [of g a b j] Let_def K_def MAX_ITER_def)
qed

lemma qromb_overflow: "qromb g a b = Inl HeapOverflow"
  by (simp add: qromb_def qromb_loop_overflow)

lemma CalcSubFlux_overflow:
  "CalcSubFlux c EactAir es Zrh AirDens utshear ushear fe Tsnow Tair U10 Zo_salt F
     = Inl HeapOverflow"
  by (simp add: CalcSubFlux_def Let_def flag_defs qromb_overflow)


text \<open>So a call of \<^verbatim>\<open>CalcSubFlux\<close> never contributes to a total that is returned: a run that
  gets to the clamp has made no call, and its total is 0.\<close>

lemma wind_pass_returns:
  "snd (wind_pass c Tair Age SurfaceLiquidWater AirDens EactAir ZO2 Zrh snowdepth Tsnow fe es F
          Uo sigma_w area hv Nd p calls T) = Inr T' \<Longrightarrow> T' = T"
  by (auto simp: wind_pass_def Let_def flux_or_zero_def CalcSubFlux_overflow
      split: prod.splits sum.splits if_splits)

lemma wind_loop_returns:
  assumes "\<And>p calls T T'. snd (pass p calls T) = Inr T' \<Longrightarrow> T' = T"
  shows "snd (wind_loop pass ps calls T) = Inr T' \<Longrightarrow> T' = T"
proof (induction ps arbitrary: calls T)
  case Nil
  then show ?case by simp
next
  case (Cons p ps)
  obtain calls' r where pr: "pass p calls T = (calls', r)" by (cases "pass p calls T")
  show ?case
  proof (cases r)
    case (Inl e)
    with pr Cons.prems show ?thesis by simp
  next
    case (Inr T1)
    with pr assms [of p calls T T1] have "T1 = T" by simp
    with pr Inr Cons.prems Cons.IH [of calls' T] show ?thesis by simp
  qed
qed

lemma constant_wind_returns:
  "snd (constant_wind c Tair Age SurfaceLiquidWater AirDens EactAir ZO2 Zrh snowdepth Tsnow fe
          es F Uo hv Nd U10) = Inr T' \<Longrightarrow> T' = 0"
  by (auto simp: constant_wind_def Let_def flux_or_zero_def CalcSubFlux_overflow
      split: prod.splits sum.splits if_splits)

lemma CalcBlowingSnow_total_zero:
  "snd (CalcBlowingSnow_total c U10 Dt Tair LastSnow SurfaceLiquidWater Wind Ls AirDens Press
          EactAir ZO Zrh snowdepth lag_one sigma_slope Tsnow iveg Nveg fe displacement
          roughness) = Inr T \<Longrightarrow> T = 0"
proof -
  have "snd (CalcBlowingSnow_total c U10 Dt Tair LastSnow SurfaceLiquidWater Wind Ls AirDens
          Press EactAir ZO Zrh snowdepth lag_one sigma_slope Tsnow iveg Nveg fe displacement
          roughness) = Inr T \<longrightarrow> T = 0"
  proof (rule CalcBlowingSnow_total_cases [where P = "\<lambda>x. snd x = Inr T \<longrightarrow> T = 0"],
      goal_cases)
    case 1
    then show ?case by simp
  next
    case (2 F)
    show ?case
      by (intro impI, rule wind_loop_returns [OF wind_pass_returns]) assumption
  next
    case (3 F)
    show ?case by (intro impI, rule constant_wind_returns)
  qed
  then show "snd (CalcBlowingSnow_total c U10 Dt Tair LastSnow SurfaceLiquidWater Wind Ls AirDens
          Press EactAir ZO Zrh snowdepth lag_one sigma_slope Tsnow iveg Nveg fe displacement
          roughness) = Inr T \<Longrightarrow> T = 0"
    by simp
qed

subsection \<open>The terms of the flux\<close>















subsection \<open>Saturated air\<close>

lemma shear_stress_calm: "shear_stress vic 0 ZO = Inl RootNotBracketed"
  by (simp add: shear_stress_def rtnewt_def Let_def get_shear_def vic_def)

lemma ln_10_ge_2: "2 \<le> ln (10::real)"
proof -
  have "ln (3::real) \<le> ln 10 / 2" using ln_10_over_ln_3(1) by (simp add: field_simps)
  with ln_3_ge_1 show ?thesis by linarith
qed

lemma shear_stress_flat_range:
  assumes "0.4 \<le> U" and "U \<le> 25"
  shows "shear_stress vic U 1 \<noteq> Inl RootNotBracketed"
proof -
  have "0.4 * U / ln 10 \<le> 0.4 * 25 / ln 10"
    using assms by (intro divide_right_mono) simp_all
  also have "\<dots> \<le> 0.4 * 25 / 2"
    using ln_10_ge_2 by (intro divide_left_mono) simp_all
  finally have "0.4 * U / ln 10 \<le> 6" by simp
  from shear_stress_flat [OF assms(1) this] show ?thesis by simp
qed

text \<open>C4, as the code has it: for every input with \<open>snowdepth > 0\<close>, if \<open>EactAir \<ge> es\<close> then
  \<^verbatim>\<open>CalcSubFlux\<close> is not called at all and the flux taken for every wind interval is 0. A
  run that returns a total returns 0, and it does so whenever \<^verbatim>\<open>shear_stress\<close> finds its root
  for the wind speeds of the run (the interval winds lie in \<open>[0.4, 25]\<close>; the constant-wind
  branch uses the 10 m wind). The run need not return: \<^verbatim>\<open>rtnewt\<close> may end it with the
  bracketing failure before any total is formed.\<close>

theorem saturated_air_no_flux:
  assumes "0 < snowdepth" and "svp c Tair \<le> EactAir"
  shows "flux_winds c U10 Dt Tair LastSnow SurfaceLiquidWater Wind Ls AirDens Press EactAir
           ZO Zrh snowdepth lag_one sigma_slope Tsnow iveg Nveg fe displacement roughness = []
       \<and> (CalcBlowingSnow c U10 Dt Tair LastSnow SurfaceLiquidWater Wind Ls AirDens Press EactAir
           ZO Zrh snowdepth lag_one sigma_slope Tsnow iveg Nveg fe displacement roughness = Inr 0
          \<or> CalcBlowingSnow c U10 Dt Tair LastSnow SurfaceLiquidWater Wind Ls AirDens Press EactAir
           ZO Zrh snowdepth lag_one sigma_slope Tsnow iveg Nveg fe displacement roughness
             = Inl RootNotBracketed)
       \<and> ((\<forall>U. (0.4 \<le> U \<and> U \<le> 25) \<or> U = wind10_of Wind (ZO 2)
                \<longrightarrow> shear_stress c U (ZO 2) \<noteq> Inl RootNotBracketed)
            \<longrightarrow> CalcBlowingSnow c U10 Dt Tair LastSnow SurfaceLiquidWater Wind Ls AirDens Press
                  EactAir ZO Zrh snowdepth lag_one sigma_slope Tsnow iveg Nveg fe displacement
                  roughness = Inr 0)"
proof -
  have cw: "constant_wind c Tair Age SurfaceLiquidWater AirDens EactAir ZO2 Zrh snowdepth Tsnow
       fe' (svp c Tair) F Uo hv Nd U10 \<in> {([], Inl RootNotBracketed), ([], Inr 0)}"
    for Age ZO2 fe' F Uo hv Nd
    using assms(2)
    by (auto simp: constant_wind_def Let_def flux_or_zero_saturated
        split: prod.splits sum.splits dest: shear_stress_error)
  have wl: "wind_loop (wind_pass c Tair Age SurfaceLiquidWater AirDens EactAir ZO2 Zrh snowdepth
       Tsnow fe' (svp c Tair) F Uo sw area hv Nd) ps [] 0
       \<in> {([], Inl RootNotBracketed), ([], Inr 0)}"
    for Age ZO2 fe' F Uo hv Nd sw area ps
    by (rule wind_loop_saturated) (rule wind_pass_saturated [OF assms(2)])
  have fl: "fst (floor_total br) = []
       \<and> (snd (floor_total br) = Inr 0 \<or> snd (floor_total br) = Inl RootNotBracketed)"
    if "br \<in> {([], Inl RootNotBracketed), ([], Inr 0)}" for br
    using that by auto
  have a: "fst (CalcBlowingSnow_run c U10 Dt Tair LastSnow SurfaceLiquidWater Wind Ls AirDens
             Press EactAir ZO Zrh snowdepth lag_one sigma_slope Tsnow iveg Nveg fe displacement
             roughness) = []
       \<and> (snd (CalcBlowingSnow_run c U10 Dt Tair LastSnow SurfaceLiquidWater Wind Ls AirDens
             Press EactAir ZO Zrh snowdepth lag_one sigma_slope Tsnow iveg Nveg fe displacement
             roughness) = Inr 0
          \<or> snd (CalcBlowingSnow_run c U10 Dt Tair LastSnow SurfaceLiquidWater Wind Ls AirDens
             Press EactAir ZO Zrh snowdepth lag_one sigma_slope Tsnow iveg Nveg fe displacement
             roughness) = Inl RootNotBracketed)"
    by (rule CalcBlowingSnow_run_cases) (use assms(1) in simp, rule fl, rule wl, rule fl, rule cw)
  have b: "snd (CalcBlowingSnow_run c U10 Dt Tair LastSnow SurfaceLiquidWater Wind Ls AirDens
             Press EactAir ZO Zrh snowdepth lag_one sigma_slope Tsnow iveg Nveg fe displacement
             roughness) = Inr 0"
    if "\<forall>U. (0.4 \<le> U \<and> U \<le> 25) \<or> U = wind10_of Wind (ZO 2)
              \<longrightarrow> shear_stress c U (ZO 2) \<noteq> Inl RootNotBracketed"
  proof -
    have "CalcBlowingSnow_total c U10 Dt Tair LastSnow SurfaceLiquidWater Wind Ls AirDens
             Press EactAir ZO Zrh snowdepth lag_one sigma_slope Tsnow iveg Nveg fe displacement
             roughness = ([], Inr 0)"
      by (rule saturated_total) (fact assms(1), fact assms(2), fact that)
    then show ?thesis by (simp add: CalcBlowingSnow_run_def)
  qed
  from a b show ?thesis
    by (simp add: flux_winds_def CalcBlowingSnow_def)
qed

text \<open>Still air over the snow (\<open>Wind = 0\<close>) in saturated air: the shear equation is negative
  at both ends of the bracket and the run ends in \<^verbatim>\<open>rtnewt\<close>; no total is returned.\<close>

theorem saturated_air_root_not_bracketed:
  "(0::real) < 0.3 \<and> svp vic (- 10) \<le> 700
   \<and> CalcBlowingSnow vic 0 1 (- 10) 48 0 0 2838000 1.3 85000 700 (\<lambda>_. 0.0005) 2 0.3 0.8 0.0003
       (- 10) 0 1 300 0.1 0.01 = Inl RootNotBracketed"
proof -
  have "exp (- (17269 / 22730)) \<le> (1::real)"
    by simp
  moreover have "svp vic (- 10) = 61078 / 100 * exp (- (17269 / 22730))"
    by (simp add: vic_def)
  ultimately have es: "svp vic (- 10) \<le> 700"
    by linarith
  have "snd (CalcBlowingSnow_run vic 0 1 (- 10) 48 0 0 2838000 1.3 85000 700 (\<lambda>_. 0.0005) 2 0.3
          0.8 0.0003 (- 10) 0 1 300 0.1 0.01) = Inl RootNotBracketed"
  proof (rule CalcBlowingSnow_run_cases, goal_cases)
    case 1
    then show ?case by simp
  next
    case (2 F)
    then show ?case by (simp add: wind10_of_def sigma_w_of_def)
  next
    case (3 F)
    show ?case
      by (simp add: wind10_of_def constant_wind_def shear_stress_calm)
  qed
  with es show ?thesis by (simp add: CalcBlowingSnow_def)
qed

text \<open>A run with snow in saturated air that returns: 2 m/s at 2 m over a surface of
  roughness 1, ten wind intervals.\<close>

lemma saturated_flat_shear:
  "\<forall>U. (0.4 \<le> U \<and> U \<le> 25) \<or> U = wind10_of 2 ((\<lambda>_. 1) (2::nat))
       \<longrightarrow> shear_stress vic U ((\<lambda>_. 1) (2::nat)) \<noteq> Inl RootNotBracketed"
proof -
  have w: "2 * 2 \<le> wind10_of 2 1" "wind10_of 2 1 \<le> 3 * 2"
    by (rule wind10_flat, simp)+
  then have a: "shear_stress vic (wind10_of 2 1) 1 \<noteq> Inl RootNotBracketed"
    by (intro shear_stress_flat_range) simp_all
  show ?thesis
  proof (intro allI impI)
    fix U :: real
    assume "(0.4 \<le> U \<and> U \<le> 25) \<or> U = wind10_of 2 ((\<lambda>_. 1) (2::nat))"
    then show "shear_stress vic U ((\<lambda>_. 1) (2::nat)) \<noteq> Inl RootNotBracketed"
    proof
      assume "0.4 \<le> U \<and> U \<le> 25"
      then have "shear_stress vic U 1 \<noteq> Inl RootNotBracketed"
        by (intro shear_stress_flat_range) simp_all
      then show ?thesis by simp
    next
      assume "U = wind10_of 2 ((\<lambda>_. 1) (2::nat))"
      with a show ?thesis by simp
    qed
  qed
qed

lemma svp_vic_cold: "svp vic (- 10) \<le> 700"
proof -
  have "exp (- (17269 / 22730)) \<le> (1::real)"
    by simp
  moreover have "svp vic (- 10) = 61078 / 100 * exp (- (17269 / 22730))"
    by (simp add: vic_def)
  ultimately show ?thesis by linarith
qed

theorem saturated_air_no_flux_witness:
  "(0::real) < 0.3 \<and> svp vic (- 10) \<le> 700
   \<and> flux_winds vic 0 1 (- 10) 48 0 2 2838000 1.3 85000 700 (\<lambda>_. 1) 2 0.3 0.8 0.0003
       (- 10) 0 1 300 0.1 0.01 = []
   \<and> CalcBlowingSnow vic 0 1 (- 10) 48 0 2 2838000 1.3 85000 700 (\<lambda>_. 1) 2 0.3 0.8 0.0003
       (- 10) 0 1 300 0.1 0.01 = Inr 0"
  using saturated_air_no_flux [OF _ svp_vic_cold, of "0.3" 0 1 48 0 2 2838000 "1.3" 85000
      "\<lambda>_. 1" 2 "0.8" "0.0003" "- 10" 0 1 300 "0.1" "0.01"]
    saturated_flat_shear svp_vic_cold
  by simp

subsection \<open>The floor of the returned value\<close>

lemma floor_total_floor: "snd (floor_total br) = Inr v \<Longrightarrow> - 0.00005 \<le> v"
  by (cases br rule: floor_total.cases) (auto split: if_splits)

lemma floor_total_max:
  "snd (floor_total br) = (case snd br of Inl e \<Rightarrow> Inl e | Inr T \<Rightarrow> Inr (max T (- 0.00005)))"
  by (cases br rule: floor_total.cases) (simp_all add: max_def)

text \<open>C2: for every input, the value \<^verbatim>\<open>CalcBlowingSnow\<close> returns is at least \<open>-5e-5\<close>: what it
  returns is the total its branches have accumulated, clamped to that floor by the last
  statement before the return (a total below the floor becomes the floor, any other total
  is returned as it is, and an error that ended the run is passed on).\<close>

theorem CalcBlowingSnow_floor:
  "CalcBlowingSnow c U10 Dt Tair LastSnow SurfaceLiquidWater Wind Ls AirDens Press EactAir
     ZO Zrh snowdepth lag_one sigma_slope Tsnow iveg Nveg fe displacement roughness
     = (case snd (CalcBlowingSnow_total c U10 Dt Tair LastSnow SurfaceLiquidWater Wind Ls
                    AirDens Press EactAir ZO Zrh snowdepth lag_one sigma_slope Tsnow iveg Nveg
                    fe displacement roughness) of
          Inl e \<Rightarrow> Inl e
        | Inr T \<Rightarrow> Inr (max T (- 0.00005)))
   \<and> (\<forall>v. CalcBlowingSnow c U10 Dt Tair LastSnow SurfaceLiquidWater Wind Ls AirDens Press
            EactAir ZO Zrh snowdepth lag_one sigma_slope Tsnow iveg Nveg fe displacement
            roughness = Inr v \<longrightarrow> - 0.00005 \<le> v)
   \<and> floor_total (calls, Inr T') = (calls, Inr (max T' (- 0.00005)))
   \<and> floor_total (calls, Inl e') = (calls, Inl e')"
proof (intro conjI allI impI)
  show "CalcBlowingSnow c U10 Dt Tair LastSnow SurfaceLiquidWater Wind Ls AirDens Press EactAir
     ZO Zrh snowdepth lag_one sigma_slope Tsnow iveg Nveg fe displacement roughness
     = (case snd (CalcBlowingSnow_total c U10 Dt Tair LastSnow SurfaceLiquidWater Wind Ls
                    AirDens Press EactAir ZO Zrh snowdepth lag_one sigma_slope Tsnow iveg Nveg
                    fe displacement roughness) of
          Inl e \<Rightarrow> Inl e
        | Inr T \<Rightarrow> Inr (max T (- 0.00005)))"
    unfolding CalcBlowingSnow_def CalcBlowingSnow_run_def by (rule floor_total_max)
  show "- 0.00005 \<le> v"
    if "CalcBlowingSnow c U10 Dt Tair LastSnow SurfaceLiquidWater Wind Ls AirDens Press
            EactAir ZO Zrh snowdepth lag_one sigma_slope Tsnow iveg Nveg fe displacement
            roughness = Inr v" for v
    using that unfolding CalcBlowingSnow_def CalcBlowingSnow_run_def
    by (rule floor_total_floor)
  show "floor_total (calls, Inr T') = (calls, Inr (max T' (- 0.00005)))"
    by (simp add: max_def)
  show "floor_total (calls, Inl e') = (calls, Inl e')"
    by simp
qed

text \<open>A run with snow whose ten intervals are accumulated (each adds 0, the air being
  saturated), and the clamp at a total below the floor.\<close>

theorem CalcBlowingSnow_floor_witness:
  "CalcBlowingSnow_total vic 0 1 (- 10) 48 0 2 2838000 1.3 85000 700 (\<lambda>_. 1) 2 0.3 0.8 0.0003
     (- 10) 0 1 300 0.1 0.01 = ([], Inr 0)
   \<and> CalcBlowingSnow vic 0 1 (- 10) 48 0 2 2838000 1.3 85000 700 (\<lambda>_. 1) 2 0.3 0.8 0.0003
       (- 10) 0 1 300 0.1 0.01 = Inr 0
   \<and> - 0.00005 \<le> (0::real)
   \<and> floor_total ([], Inr (- 1)) = ([], Inr (- 0.00005))"
proof -
  have t: "CalcBlowingSnow_total vic 0 1 (- 10) 48 0 2 2838000 1.3 85000 700 (\<lambda>_. 1) 2 0.3 0.8
             0.0003 (- 10) 0 1 300 0.1 0.01 = ([], Inr 0)"
    by (rule saturated_total) (simp, rule svp_vic_cold, rule saturated_flat_shear)
  from CalcBlowingSnow_floor [of vic 0 1 "- 10" 48 0 2 2838000 "1.3" 85000 700 "\<lambda>_. 1" 2
      "0.3" "0.8" "0.0003" "- 10" 0 1 300 "0.1" "0.01" "[]" "- 1"] t
  show ?thesis by simp
qed

end
